theory Spec2Isabelle
  imports Main "HOL-Library.Multiset"
begin

section \<open>WorkWise: data model\<close>

text \<open>
  The static catalog \<^verbatim>\<open>skillsJobsData\<close> is imported from a JSON file; its skills and
  jobs are taken as a parameter. The fields \<^verbatim>\<open>id\<close> and \<^verbatim>\<open>type\<close> of the source are
  called \<open>skill_id\<close>, \<open>job_id\<close> and \<open>job_type\<close> here.
\<close>

record skill =
  skill_id :: nat
  name :: string

record job =
  job_id :: nat
  title :: string
  description :: string
  category :: string
  job_type :: string
  tags :: "string list"

record catalog =
  skills :: "skill list"
  jobs :: "job list"

text \<open>
  A user record as the page receives it from \<^verbatim>\<open>/api/dashboard/users\<close>. Its field
  \<^verbatim>\<open>skills\<close> is called \<open>user_skills\<close> here; it may be absent (or falsy), which is \<open>None\<close>.
\<close>

record user_record =
  userId :: string
  userEmail :: string
  user_skills :: "string list option"
  updatedAt :: string

text \<open>The part of the page's React state that the matcher and the dashboard read and write.\<close>

record app_state =
  userSkills :: "string list"
  jobFilter :: string
  matchedJobs :: "job list"
  allUsers :: "user_record list"

section \<open>Strings\<close>

text \<open>
  A string is a sequence of code points below 256 (Latin-1), one \<open>char\<close> each.
  \<^verbatim>\<open>String.prototype.toLowerCase\<close> maps the capital letters of this range, which are
  A to Z (65 to 90) and the accented capitals 192 to 214 and 216 to 222, to the small
  letter 32 places on, and keeps every other character.
\<close>

definition lower_char :: "char \<Rightarrow> char" where
  "lower_char c =
     (let n = (of_char c :: nat) in
      if (65 \<le> n \<and> n \<le> 90) \<or> (192 \<le> n \<and> n \<le> 214) \<or> (216 \<le> n \<and> n \<le> 222)
      then char_of (n + 32) else c)"

definition toLowerCase :: "string \<Rightarrow> string" where
  "toLowerCase s = map lower_char s"

text \<open>
  \<^verbatim>\<open>s.replace('-', '')\<close>: with a string pattern, \<^verbatim>\<open>replace\<close> rewrites the first
  occurrence only, so exactly one hyphen (the leftmost) is dropped.
\<close>

definition replace_hyphen :: "string \<Rightarrow> string" where
  "replace_hyphen s = remove1 (CHR ''-'') s"

text \<open>\<^verbatim>\<open>job.type.toLowerCase().replace('-', '')\<close>\<close>

definition normalize_type :: "string \<Rightarrow> string" where
  "normalize_type t = replace_hyphen (toLowerCase t)"

text \<open>
  The normalization in the words of the specification: lowercased, hyphens removed
  (all of them).
\<close>

definition spec_normalize_type :: "string \<Rightarrow> string" where
  "spec_normalize_type t = filter (\<lambda>c. c \<noteq> CHR ''-'') (toLowerCase t)"

section \<open>The matcher\<close>

text \<open>
  \<^verbatim>\<open>Array.prototype.sort(cmp)\<close> is a stable sort (ECMAScript 2019 and later): an
  insertion sort driven by the comparator, where an element is placed in front of the
  first element that it does not have to follow.
\<close>

fun insert_by :: "('a \<Rightarrow> 'a \<Rightarrow> int) \<Rightarrow> 'a \<Rightarrow> 'a list \<Rightarrow> 'a list" where
  "insert_by cmp x [] = [x]"
| "insert_by cmp x (y # ys) =
     (if cmp x y \<le> 0 then x # y # ys else y # insert_by cmp x ys)"

definition array_sort :: "('a \<Rightarrow> 'a \<Rightarrow> int) \<Rightarrow> 'a list \<Rightarrow> 'a list" where
  "array_sort cmp xs = foldr (insert_by cmp) xs []"

text \<open>\<^verbatim>\<open>userSkills.includes(tag)\<close>\<close>

definition array_includes :: "'a list \<Rightarrow> 'a \<Rightarrow> bool" where
  "array_includes xs x = (x \<in> set xs)"

text \<open>\<^verbatim>\<open>job.tags.some(tag => userSkills.includes(tag))\<close>\<close>

definition hasMatchingSkill :: "string list \<Rightarrow> job \<Rightarrow> bool" where
  "hasMatchingSkill us j = list_ex (\<lambda>tag. array_includes us tag) (tags j)"

text \<open>
  \<^verbatim>\<open>jobFilter === 'all' || job.type.toLowerCase().replace('-', '') === jobFilter\<close>
\<close>

definition matchesFilter :: "string \<Rightarrow> job \<Rightarrow> bool" where
  "matchesFilter f j = (f = ''all'' \<or> normalize_type (job_type j) = f)"

text \<open>\<^verbatim>\<open>a.tags.filter(tag => userSkills.includes(tag)).length\<close>\<close>

definition matches :: "string list \<Rightarrow> job \<Rightarrow> nat" where
  "matches us j = length (filter (\<lambda>tag. array_includes us tag) (tags j))"

text \<open>The comparator of the sort: \<^verbatim>\<open>bMatches - aMatches\<close>.\<close>

definition by_matches :: "string list \<Rightarrow> job \<Rightarrow> job \<Rightarrow> int" where
  "by_matches us a b = int (matches us b) - int (matches us a)"

definition findMatchedJobs :: "catalog \<Rightarrow> app_state \<Rightarrow> app_state" where
  "findMatchedJobs skillsJobsData st =
     (if length (userSkills st) = 0 then st\<lparr>matchedJobs := []\<rparr>
      else
        let filtered =
              filter (\<lambda>j. hasMatchingSkill (userSkills st) j \<and> matchesFilter (jobFilter st) j)
                (jobs skillsJobsData);
            sorted = array_sort (by_matches (userSkills st)) filtered
        in st\<lparr>matchedJobs := sorted\<rparr>)"

text \<open>
  The contract \<open>match(jobs, userSkills, typeFilter)\<close> of the specification: the list
  that \<open>findMatchedJobs\<close> stores for a catalog, a skill list and a filter.
\<close>

definition match :: "job list \<Rightarrow> string list \<Rightarrow> string \<Rightarrow> job list" where
  "match J S f =
     matchedJobs (findMatchedJobs \<lparr>skills = [], jobs = J\<rparr>
       \<lparr>userSkills = S, jobFilter = f, matchedJobs = [], allUsers = []\<rparr>)"

text \<open>
  An example catalog, after the example of the specification: Job A (tags Coding, type
  Permanent) and Job B (tags Coding and Design, type Part-Time), with two more jobs.
\<close>

definition example_jobA :: job where
  "example_jobA = \<lparr>job_id = 1, title = ''Job A'', description = ''Backend work'',
     category = ''Technology'', job_type = ''Permanent'', tags = [''Coding'']\<rparr>"

definition example_jobB :: job where
  "example_jobB = \<lparr>job_id = 2, title = ''Job B'', description = ''Web design'',
     category = ''Creative'', job_type = ''Part-Time'', tags = [''Coding'', ''Design'']\<rparr>"

definition example_jobC :: job where
  "example_jobC = \<lparr>job_id = 3, title = ''Job C'', description = ''Copy editing'',
     category = ''Creative'', job_type = ''One-Time'', tags = [''Writing'']\<rparr>"

definition example_jobD :: job where
  "example_jobD = \<lparr>job_id = 4, title = ''Job D'', description = ''Logo drawing'',
     category = ''Creative'', job_type = ''One-Time'', tags = [''Design'']\<rparr>"

definition example_jobE :: job where
  "example_jobE = \<lparr>job_id = 5, title = ''Job E'', description = ''Help desk'',
     category = ''Technology'', job_type = ''Part--Time'', tags = [''Coding'']\<rparr>"

definition example_jobs :: "job list" where
  "example_jobs = [example_jobA, example_jobB, example_jobC, example_jobD]"

section \<open>The dashboard aggregator\<close>

text \<open>
  The counters \<^verbatim>\<open>skillCounts\<close> and \<^verbatim>\<open>categoryCounts\<close> are object literals \<^verbatim>\<open>{}\<close> used
  as dictionaries. Such an object has its own properties, kept in insertion order, and
  inherits the members of \<^verbatim>\<open>Object.prototype\<close>, whose names are listed here.
\<close>

definition object_prototype_names :: "string list" where
  "object_prototype_names =
     [''constructor'', ''__defineGetter__'', ''__defineSetter__'', ''hasOwnProperty'',
      ''__lookupGetter__'', ''__lookupSetter__'', ''isPrototypeOf'', ''propertyIsEnumerable'',
      ''toString'', ''valueOf'', ''__proto__'', ''toLocaleString'']"

text \<open>
  An own property is written in place when the key exists and appended when it is new.
\<close>

fun own_set :: "(string \<times> 'v) list \<Rightarrow> string \<Rightarrow> 'v \<Rightarrow> (string \<times> 'v) list" where
  "own_set [] k v = [(k, v)]"
| "own_set (p # ps) k v = (if fst p = k then (k, v) # ps else p # own_set ps k v)"

text \<open>
  The assignment \<^verbatim>\<open>obj[k] = v\<close> of a number or a string: for the key \<^verbatim>\<open>__proto__\<close> it
  calls the setter that the object inherits, which ignores a value that is not an object,
  so that no property is written; every other key becomes or stays an own property (the
  other inherited members are writable data properties, which an assignment shadows).
\<close>

definition obj_set :: "(string \<times> 'v) list \<Rightarrow> string \<Rightarrow> 'v \<Rightarrow> (string \<times> 'v) list" where
  "obj_set ps k v = (if k = ''__proto__'' then ps else own_set ps k v)"

text \<open>
  The read \<^verbatim>\<open>obj[k]\<close>: the own property when there is one, otherwise the inherited
  member when \<open>k\<close> names one, otherwise \<^verbatim>\<open>undefined\<close>.
\<close>

datatype 'v lookup = Own 'v | Inherited string | Missing

definition obj_get :: "(string \<times> 'v) list \<Rightarrow> string \<Rightarrow> 'v lookup" where
  "obj_get ps k =
     (case map_of ps k of
        Some v \<Rightarrow> Own v
      | None \<Rightarrow> if k \<in> set object_prototype_names then Inherited k else Missing)"

text \<open>
  \<^verbatim>\<open>Object.keys\<close> and \<^verbatim>\<open>Object.values\<close> list the own properties in the order of
  \<^verbatim>\<open>OrdinaryOwnPropertyKeys\<close>: first the keys that are array indices (canonical decimal
  numerals below \<open>2^32 - 1\<close>) in ascending numeric order, then all other string keys in
  insertion order.
\<close>

definition is_digit :: "char \<Rightarrow> bool" where
  "is_digit c = (let n = (of_char c :: int) in 48 \<le> n \<and> n \<le> 57)"

definition decimal_value :: "string \<Rightarrow> int" where
  "decimal_value s = foldl (\<lambda>n c. 10 * n + (of_char c - 48)) 0 s"

definition is_array_index :: "string \<Rightarrow> bool" where
  "is_array_index s =
     (s \<noteq> [] \<and> list_all is_digit s \<and> (s = ''0'' \<or> hd s \<noteq> CHR ''0'') \<and>
      decimal_value s < 4294967295)"

definition own_entries :: "(string \<times> 'v) list \<Rightarrow> (string \<times> 'v) list" where
  "own_entries ps =
     sort_key (\<lambda>p. decimal_value (fst p)) (filter (\<lambda>p. is_array_index (fst p)) ps) @
     filter (\<lambda>p. \<not> is_array_index (fst p)) ps"

definition object_keys :: "(string \<times> 'v) list \<Rightarrow> string list" where
  "object_keys ps = map fst (own_entries ps)"

definition object_values :: "(string \<times> 'v) list \<Rightarrow> 'v list" where
  "object_values ps = map snd (own_entries ps)"

text \<open>The chart data that both functions return.\<close>

record 'v dataset =
  label :: string
  data :: "'v list"
  backgroundColor :: "string list"
  borderRadius :: nat

record 'v chart_data =
  labels :: "string list"
  datasets :: "'v dataset list"

text \<open>\<^verbatim>\<open>user.skills && user.skills.includes(skill.name)\<close>\<close>

definition user_has_skill :: "string \<Rightarrow> user_record \<Rightarrow> bool" where
  "user_has_skill n u =
     (case user_skills u of None \<Rightarrow> False | Some ss \<Rightarrow> array_includes ss n)"

text \<open>
  The loop of \<^verbatim>\<open>getSkillFrequencyData\<close> over the skills of the catalog; \<open>count_skill\<close>
  is the body of the callback, on the object built so far.
\<close>

definition count_skill ::
  "user_record list \<Rightarrow> (string \<times> nat) list \<Rightarrow> skill \<Rightarrow> (string \<times> nat) list" where
  "count_skill users counts s =
     obj_set counts (name s) (length (filter (user_has_skill (name s)) users))"

definition skillCounts :: "catalog \<Rightarrow> app_state \<Rightarrow> (string \<times> nat) list" where
  "skillCounts skillsJobsData st =
     foldl (count_skill (allUsers st)) [] (skills skillsJobsData)"

definition getSkillFrequencyData :: "catalog \<Rightarrow> app_state \<Rightarrow> nat chart_data" where
  "getSkillFrequencyData skillsJobsData st =
     (let counts = skillCounts skillsJobsData st in
      \<lparr>labels = object_keys counts,
       datasets = [\<lparr>label = ''Number of Users'', data = object_values counts,
         backgroundColor = [''rgba(168, 85, 247, 0.8)'', ''rgba(59, 130, 246, 0.8)'',
           ''rgba(16, 185, 129, 0.8)'', ''rgba(245, 158, 11, 0.8)'',
           ''rgba(239, 68, 68, 0.8)''],
         borderRadius = 8\<rparr>]\<rparr>)"

text \<open>
  A value of \<^verbatim>\<open>categoryCounts\<close>: a number, or the string that arises when 1 is added to an
  inherited member. \<open>Appended k i\<close> is the text that the member \<open>k\<close> of
  \<^verbatim>\<open>Object.prototype\<close> converts to (for \<^verbatim>\<open>constructor\<close> in V8,
  \<^verbatim>\<open>function Object() { [native code] }\<close>) followed by \<open>i\<close> times the digit 1.
\<close>

datatype count = Number nat | Appended string nat

text \<open>
  \<^verbatim>\<open>(categoryCounts[job.category] || 0) + 1\<close> on the result of the read: \<^verbatim>\<open>undefined\<close>
  and the number 0 give \<open>0 + 1\<close>, another number is incremented, and an inherited member
  or a string, both truthy, are converted to a string to which 1 is appended.
\<close>

definition or_zero_plus_one :: "count lookup \<Rightarrow> count" where
  "or_zero_plus_one x =
     (case x of
        Missing \<Rightarrow> Number (0 + 1)
      | Own (Number n) \<Rightarrow> Number ((if n = 0 then 0 else n) + 1)
      | Own (Appended k i) \<Rightarrow> Appended k (i + 1)
      | Inherited k \<Rightarrow> Appended k 1)"

text \<open>
  The loop of \<^verbatim>\<open>getJobDemandData\<close> over the jobs of the catalog; \<open>count_category\<close> is
  the body of the callback.
\<close>

definition count_category :: "(string \<times> count) list \<Rightarrow> job \<Rightarrow> (string \<times> count) list" where
  "count_category counts j =
     obj_set counts (category j) (or_zero_plus_one (obj_get counts (category j)))"

definition categoryCounts :: "catalog \<Rightarrow> (string \<times> count) list" where
  "categoryCounts skillsJobsData = foldl count_category [] (jobs skillsJobsData)"

text \<open>
  What \<open>n\<close> rounds of the callback for one category leave at its key: the number \<open>n\<close>,
  or for the name of an inherited member the member's text with \<open>n\<close> digits appended.
\<close>

definition counted :: "string \<Rightarrow> nat \<Rightarrow> count" where
  "counted c n = (if c \<in> set object_prototype_names then Appended c n else Number n)"

definition getJobDemandData :: "catalog \<Rightarrow> count chart_data" where
  "getJobDemandData skillsJobsData =
     (let counts = categoryCounts skillsJobsData in
      \<lparr>labels = object_keys counts,
       datasets = [\<lparr>label = ''Number of Jobs'', data = object_values counts,
         backgroundColor = [''rgba(168, 85, 247, 0.8)'', ''rgba(59, 130, 246, 0.8)'',
           ''rgba(16, 185, 129, 0.8)'', ''rgba(245, 158, 11, 0.8)''],
         borderRadius = 8\<rparr>]\<rparr>)"

text \<open>
  The contracts \<open>skillFrequency(skills, users)\<close> and \<open>jobDemand(jobs)\<close> of the
  specification: the labels of the chart paired with its values, in the order of the chart.
\<close>

definition chart_entries :: "'v chart_data \<Rightarrow> (string \<times> 'v) list" where
  "chart_entries c = zip (labels c) (concat (map data (datasets c)))"

definition skillFrequency :: "skill list \<Rightarrow> user_record list \<Rightarrow> (string \<times> nat) list" where
  "skillFrequency S U =
     chart_entries (getSkillFrequencyData \<lparr>skills = S, jobs = []\<rparr>
       \<lparr>userSkills = [], jobFilter = ''all'', matchedJobs = [], allUsers = U\<rparr>)"

definition jobDemand :: "job list \<Rightarrow> (string \<times> count) list" where
  "jobDemand J = chart_entries (getJobDemandData \<lparr>skills = [], jobs = J\<rparr>)"

text \<open>
  First-seen order, in the words of the specification: every element once, at the place
  of its first occurrence.
\<close>

definition see :: "'a list \<Rightarrow> 'a \<Rightarrow> 'a list" where
  "see seen x = (if x \<in> set seen then seen else seen @ [x])"

definition first_seen :: "'a list \<Rightarrow> 'a list" where
  "first_seen xs = foldl see [] xs"

text \<open>
  The order in which an object lists a sequence of distinct keys that were inserted in the
  order given: array indices first, ascending, then the other keys as inserted.
\<close>

definition property_order :: "string list \<Rightarrow> string list" where
  "property_order ks =
     sort_key decimal_value (filter is_array_index ks) @
     filter (\<lambda>k. \<not> is_array_index k) ks"

text \<open>Example data for the dashboard, after the example of the specification.\<close>

definition numbered_skills :: "skill list" where
  "numbered_skills = [\<lparr>skill_id = 1, name = ''2''\<rparr>, \<lparr>skill_id = 2, name = ''1''\<rparr>]"

definition proto_skills :: "skill list" where
  "proto_skills = [\<lparr>skill_id = 1, name = ''__proto__''\<rparr>, \<lparr>skill_id = 2, name = ''Coding''\<rparr>]"

definition constructor_job :: job where
  "constructor_job = \<lparr>job_id = 6, title = ''Job F'', description = ''Site manager'',
     category = ''constructor'', job_type = ''Permanent'', tags = [''Building'']\<rparr>"

definition proto_job :: job where
  "proto_job = \<lparr>job_id = 7, title = ''Job G'', description = ''Prototyping'',
     category = ''__proto__'', job_type = ''One-Time'', tags = [''Design'']\<rparr>"

definition example_skills :: "skill list" where
  "example_skills =
     [\<lparr>skill_id = 1, name = ''Coding''\<rparr>, \<lparr>skill_id = 2, name = ''Design''\<rparr>,
      \<lparr>skill_id = 3, name = ''Writing''\<rparr>]"

definition example_users :: "user_record list" where
  "example_users =
     [\<lparr>userId = ''u1'', userEmail = ''a@example.org'', user_skills = Some [''Coding''],
        updatedAt = ''2024-01-01''\<rparr>,
      \<lparr>userId = ''u2'', userEmail = ''b@example.org'', user_skills = Some [''Coding'', ''Design''],
        updatedAt = ''2024-01-02''\<rparr>]"

section \<open>The API route handler\<close>

subsection \<open>JavaScript values, exceptions and responses\<close>

text \<open>
  A JavaScript value as a request body, a stored document or a response body carries it.
  Numbers are modelled by integers: the handler only tests them for truthiness.
\<close>

datatype jsval =
    JUndefined
  | JNull
  | JBool bool
  | JNum int
  | JStr string
  | JArr "jsval list"
  | JObj "(string \<times> jsval) list"

text \<open>
  A document of a collection: its fields. The \<^verbatim>\<open>_id\<close> that the database server assigns to
  a document of \<^verbatim>\<open>user_skills\<close> on an upsert is left out: the handler never reads it and
  strips it from what it returns.
\<close>

type_synonym doc = "(string \<times> jsval) list"

text \<open>
  A computation that may throw: \<open>Inl msg\<close> is a thrown error whose \<^verbatim>\<open>message\<close> is
  \<open>msg\<close>, \<open>Inr v\<close> is the value \<open>v\<close>.
\<close>

type_synonym 'a outcome = "string + 'a"

text \<open>The conversion to a boolean that \<^verbatim>\<open>!\<close>, \<^verbatim>\<open>||\<close> and \<^verbatim>\<open>if\<close> apply.\<close>

fun truthy :: "jsval \<Rightarrow> bool" where
  "truthy JUndefined = False"
| "truthy JNull = False"
| "truthy (JBool b) = b"
| "truthy (JNum n) = (n \<noteq> 0)"
| "truthy (JStr s) = (s \<noteq> [])"
| "truthy (JArr xs) = True"
| "truthy (JObj fs) = True"

text \<open>\<^verbatim>\<open>Array.isArray\<close>\<close>

fun isArray :: "jsval \<Rightarrow> bool" where
  "isArray (JArr xs) = True"
| "isArray v = False"

text \<open>
  The property read \<^verbatim>\<open>v.k\<close>, for the property names that the handler reads from a
  parsed body (\<^verbatim>\<open>email\<close>, \<^verbatim>\<open>password\<close>, \<^verbatim>\<open>skills\<close>, \<^verbatim>\<open>client_name\<close>): it throws a
  TypeError on \<^verbatim>\<open>null\<close> and \<^verbatim>\<open>undefined\<close>, reads the field of an object, and is
  \<^verbatim>\<open>undefined\<close> on every other value and on a missing field.
\<close>

fun get_prop :: "jsval \<Rightarrow> string \<Rightarrow> jsval outcome" where
  "get_prop JNull k =
     Inl (''Cannot read properties of null (reading '' @ [CHR 0x27] @ k @ [CHR 0x27] @ '')'')"
| "get_prop JUndefined k =
     Inl (''Cannot read properties of undefined (reading '' @ [CHR 0x27] @ k @ [CHR 0x27] @ '')'')"
| "get_prop (JObj fs) k = Inr (case map_of fs k of None \<Rightarrow> JUndefined | Some v \<Rightarrow> v)"
| "get_prop v k = Inr JUndefined"

record response =
  status :: nat
  resp_body :: jsval
  headers :: "(string \<times> string) list"

text \<open>\<^verbatim>\<open>NextResponse.json(body, { status })\<close>; the status is 200 where the source gives none.\<close>

definition json_response :: "jsval \<Rightarrow> nat \<Rightarrow> response" where
  "json_response b st =
     \<lparr>status = st, resp_body = b, headers = [(''content-type'', ''application/json'')]\<rparr>"

text \<open>\<^verbatim>\<open>headers.set(name, value)\<close>: replaces the value of a header or appends the header.\<close>

fun headers_set :: "(string \<times> string) list \<Rightarrow> string \<Rightarrow> string \<Rightarrow> (string \<times> string) list" where
  "headers_set [] k v = [(k, v)]"
| "headers_set (h # hs) k v = (if fst h = k then (k, v) # hs else h # headers_set hs k v)"

definition handleCORS :: "response \<Rightarrow> response" where
  "handleCORS r =
     r\<lparr>headers :=
        headers_set (headers_set (headers_set (headers_set (headers r)
          ''Access-Control-Allow-Origin'' ''*'')
          ''Access-Control-Allow-Methods'' ''GET, POST, PUT, DELETE, OPTIONS'')
          ''Access-Control-Allow-Headers'' ''Content-Type, Authorization'')
          ''Access-Control-Allow-Credentials'' ''true''\<rparr>"

text \<open>The handler of \<^verbatim>\<open>OPTIONS\<close>.\<close>

definition OPTIONS :: response where
  "OPTIONS = handleCORS \<lparr>status = 200, resp_body = JNull, headers = []\<rparr>"

subsection \<open>The collaborators: auth provider and document store\<close>

text \<open>The user that the auth provider reports, with the two fields the handler reads.\<close>

record auth_user =
  user_id :: string
  email :: string

definition user_json :: "auth_user \<Rightarrow> jsval" where
  "user_json u = JObj [(''id'', JStr (user_id u)), (''email'', JStr (email u))]"

text \<open>The reply \<^verbatim>\<open>{ data, error }\<close> of a call to the auth provider.\<close>

record auth_reply =
  data_user :: jsval
  data_session :: jsval
  error_message :: "string option"

text \<open>
  What the collaborators answer during one request. A call that throws (or a promise that
  rejects) is \<open>Inl\<close> or \<open>Some\<close> of the error's message.
  \<^item> \<open>new_client\<close>: \<^verbatim>\<open>new MongoClient(url)\<close> throws;
  \<^item> \<open>connect\<close>: \<^verbatim>\<open>client.connect()\<close> rejects;
  \<^item> \<open>getUser\<close>: \<^verbatim>\<open>supabase.auth.getUser()\<close>, with the user or \<^verbatim>\<open>null\<close>;
  \<^item> \<open>signUp\<close>, \<open>signInWithPassword\<close>, \<open>signOut\<close>: the calls of the same names, on the
    email and the password given;
  \<^item> \<open>collection_error\<close>: the operation on a collection of the database rejects;
  \<^item> \<open>now\<close>, \<open>uuid\<close>: the values of \<^verbatim>\<open>new Date()\<close> and \<^verbatim>\<open>uuidv4()\<close>;
  \<^item> \<open>objectId\<close>: the identifier that \<^verbatim>\<open>insertOne\<close> generates for a new document.
\<close>

record backend =
  new_client :: "string option"
  connect :: "string option"
  getUser :: "(auth_user option) outcome"
  signUp :: "jsval \<Rightarrow> jsval \<Rightarrow> auth_reply outcome"
  signInWithPassword :: "jsval \<Rightarrow> jsval \<Rightarrow> auth_reply outcome"
  signOut :: "(string option) outcome"
  collection_error :: "string option"
  now :: string
  uuid :: string
  objectId :: string

text \<open>
  The state that outlives a request: the module variables \<^verbatim>\<open>client\<close> and \<^verbatim>\<open>db\<close>
  (whether each is set) and the two collections of the database.
\<close>

record world =
  client :: bool
  db :: bool
  coll_user_skills :: "doc list"
  coll_status_checks :: "doc list"

record request =
  path :: "string list"
  http_method :: string
  json_body :: "jsval outcome"

text \<open>
  \<^verbatim>\<open>connectToMongo\<close>: the client is created and connected once. The result is \<open>True\<close>
  for a database handle and \<open>False\<close> for \<^verbatim>\<open>undefined\<close>, which is what a later request
  gets after a connection that failed.
\<close>

definition connectToMongo :: "backend \<Rightarrow> world \<Rightarrow> bool outcome \<times> world" where
  "connectToMongo env w =
     (if \<not> client w then
        (case new_client env of
           Some e \<Rightarrow> (Inl e, w)
         | None \<Rightarrow>
            (case connect env of
               Some e \<Rightarrow> (Inl e, w\<lparr>client := True\<rparr>)
             | None \<Rightarrow> (Inr True, w\<lparr>client := True, db := True\<rparr>)))
      else (Inr (db w), w))"

text \<open>
  \<^verbatim>\<open>db.collection(name)\<close> followed by one operation: a TypeError when the handle is
  \<^verbatim>\<open>undefined\<close>, the error of the database when the operation rejects.
\<close>

definition collection :: "backend \<Rightarrow> bool \<Rightarrow> unit outcome" where
  "collection env h =
     (if \<not> h then
        Inl (''Cannot read properties of undefined (reading '' @ [CHR 0x27] @ ''collection'' @
          [CHR 0x27] @ '')'')
      else (case collection_error env of Some e \<Rightarrow> Inl e | None \<Rightarrow> Inr ()))"

text \<open>The query \<^verbatim>\<open>{ userId: user.id }\<close> on a document.\<close>

definition matches_user :: "string \<Rightarrow> doc \<Rightarrow> bool" where
  "matches_user uid d = (map_of d ''userId'' = Some (JStr uid))"

definition findOne :: "string \<Rightarrow> doc list \<Rightarrow> doc option" where
  "findOne uid ds = find (matches_user uid) ds"

text \<open>
  \<^verbatim>\<open>replaceOne(query, doc, { upsert: true })\<close>: the first document that matches is
  replaced by the new one; when none matches, the new document is inserted.
\<close>

fun replaceOne :: "string \<Rightarrow> doc \<Rightarrow> doc list \<Rightarrow> doc list" where
  "replaceOne uid d [] = [d]"
| "replaceOne uid d (x # xs) =
     (if matches_user uid x then d # xs else x # replaceOne uid d xs)"

text \<open>\<^verbatim>\<open>({ _id, ...rest }) => rest\<close>\<close>

definition without_id :: "doc \<Rightarrow> doc" where
  "without_id d = filter (\<lambda>f. fst f \<noteq> ''_id'') d"

subsection \<open>The routes\<close>

text \<open>\<^verbatim>\<open>path.join('/')\<close>\<close>

fun join :: "string \<Rightarrow> string list \<Rightarrow> string" where
  "join sep [] = []"
| "join sep [x] = x"
| "join sep (x # y # ys) = x @ sep @ join sep (y # ys)"

definition route_of :: "request \<Rightarrow> string" where
  "route_of req = ''/'' @ join ''/'' (path req)"

definition error_body :: "string \<Rightarrow> jsval" where
  "error_body msg = JObj [(''error'', JStr msg)]"

definition getAuthenticatedUser :: "backend \<Rightarrow> auth_user outcome" where
  "getAuthenticatedUser env =
     (case getUser env of
        Inl e \<Rightarrow> Inl e
      | Inr None \<Rightarrow> Inl ''Unauthorized - Please log in''
      | Inr (Some user) \<Rightarrow> Inr user)"

text \<open>
  The \<^verbatim>\<open>try { ... } catch (error) { ... 401 }\<close> around the routes that need a user: every
  error thrown inside becomes a response with status 401 and the error's message.
\<close>

definition catch_401 :: "response outcome \<times> world \<Rightarrow> response outcome \<times> world" where
  "catch_401 r =
     (case r of
        (Inl e, w) \<Rightarrow> (Inr (handleCORS (json_response (error_body e) 401)), w)
      | (Inr resp, w) \<Rightarrow> (Inr resp, w))"

text \<open>\<^verbatim>\<open>POST /auth/signup\<close>\<close>

definition auth_signup :: "backend \<Rightarrow> request \<Rightarrow> world \<Rightarrow> response outcome \<times> world" where
  "auth_signup env req w =
     (case json_body req of
        Inl e \<Rightarrow> (Inl e, w)
      | Inr body \<Rightarrow>
         (case get_prop body ''email'' of
            Inl e \<Rightarrow> (Inl e, w)
          | Inr em \<Rightarrow>
             (case get_prop body ''password'' of
                Inl e \<Rightarrow> (Inl e, w)
              | Inr pw \<Rightarrow>
                 (case signUp env em pw of
                    Inl e \<Rightarrow> (Inl e, w)
                  | Inr reply \<Rightarrow>
                     (case error_message reply of
                        Some msg \<Rightarrow> (Inr (handleCORS (json_response (error_body msg) 400)), w)
                      | None \<Rightarrow>
                         (Inr (handleCORS (json_response
                            (JObj [(''user'', data_user reply)]) 200)), w))))))"

text \<open>\<^verbatim>\<open>POST /auth/signin\<close>\<close>

definition auth_signin :: "backend \<Rightarrow> request \<Rightarrow> world \<Rightarrow> response outcome \<times> world" where
  "auth_signin env req w =
     (case json_body req of
        Inl e \<Rightarrow> (Inl e, w)
      | Inr body \<Rightarrow>
         (case get_prop body ''email'' of
            Inl e \<Rightarrow> (Inl e, w)
          | Inr em \<Rightarrow>
             (case get_prop body ''password'' of
                Inl e \<Rightarrow> (Inl e, w)
              | Inr pw \<Rightarrow>
                 (case signInWithPassword env em pw of
                    Inl e \<Rightarrow> (Inl e, w)
                  | Inr reply \<Rightarrow>
                     (case error_message reply of
                        Some msg \<Rightarrow> (Inr (handleCORS (json_response (error_body msg) 400)), w)
                      | None \<Rightarrow>
                         (Inr (handleCORS (json_response
                            (JObj [(''user'', data_user reply),
                                   (''session'', data_session reply)]) 200)), w))))))"

text \<open>\<^verbatim>\<open>POST /auth/signout\<close>\<close>

definition auth_signout :: "backend \<Rightarrow> world \<Rightarrow> response outcome \<times> world" where
  "auth_signout env w =
     (case signOut env of
        Inl e \<Rightarrow> (Inl e, w)
      | Inr (Some msg) \<Rightarrow> (Inr (handleCORS (json_response (error_body msg) 400)), w)
      | Inr None \<Rightarrow>
         (Inr (handleCORS (json_response
            (JObj [(''message'', JStr ''Signed out successfully'')]) 200)), w))"

text \<open>\<^verbatim>\<open>GET /auth/user\<close>\<close>

definition auth_user_get :: "backend \<Rightarrow> world \<Rightarrow> response outcome \<times> world" where
  "auth_user_get env w =
     catch_401
       (case getAuthenticatedUser env of
          Inl e \<Rightarrow> (Inl e, w)
        | Inr user \<Rightarrow>
           (Inr (handleCORS (json_response (JObj [(''user'', user_json user)]) 200)), w))"

text \<open>\<^verbatim>\<open>GET /user/skills\<close>; the body is \<^verbatim>\<open>{ skills: userSkills?.skills || [] }\<close>.\<close>

definition user_skills_get :: "backend \<Rightarrow> bool \<Rightarrow> world \<Rightarrow> response outcome \<times> world" where
  "user_skills_get env h w =
     catch_401
       (case getAuthenticatedUser env of
          Inl e \<Rightarrow> (Inl e, w)
        | Inr user \<Rightarrow>
           (case collection env h of
              Inl e \<Rightarrow> (Inl e, w)
            | Inr _ \<Rightarrow>
               (let userSkills = findOne (user_id user) (coll_user_skills w);
                    stored =
                      (case userSkills of
                         None \<Rightarrow> JUndefined
                       | Some d \<Rightarrow> (case map_of d ''skills'' of None \<Rightarrow> JUndefined | Some v \<Rightarrow> v))
                in (Inr (handleCORS (json_response
                      (JObj [(''skills'', if truthy stored then stored else JArr [])]) 200)), w))))"

text \<open>\<^verbatim>\<open>POST /user/skills\<close>\<close>

definition user_skills_post ::
  "backend \<Rightarrow> request \<Rightarrow> bool \<Rightarrow> world \<Rightarrow> response outcome \<times> world" where
  "user_skills_post env req h w =
     catch_401
       (case getAuthenticatedUser env of
          Inl e \<Rightarrow> (Inl e, w)
        | Inr user \<Rightarrow>
           (case json_body req of
              Inl e \<Rightarrow> (Inl e, w)
            | Inr body \<Rightarrow>
               (case get_prop body ''skills'' of
                  Inl e \<Rightarrow> (Inl e, w)
                | Inr sk \<Rightarrow>
                   if \<not> truthy sk \<or> \<not> isArray sk then
                     (Inr (handleCORS (json_response
                        (error_body ''Skills array is required'') 400)), w)
                   else
                     (let userSkillsDoc =
                            [(''userId'', JStr (user_id user)),
                             (''userEmail'', JStr (email user)),
                             (''skills'', sk),
                             (''updatedAt'', JStr (now env))]
                      in case collection env h of
                           Inl e \<Rightarrow> (Inl e, w)
                         | Inr _ \<Rightarrow>
                            (Inr (handleCORS (json_response
                               (JObj [(''message'', JStr ''Skills updated successfully''),
                                      (''skills'', sk)]) 200)),
                             w\<lparr>coll_user_skills :=
                                 replaceOne (user_id user) userSkillsDoc (coll_user_skills w)\<rparr>)))))"

text \<open>\<^verbatim>\<open>GET /dashboard/users\<close>\<close>

definition dashboard_users :: "backend \<Rightarrow> bool \<Rightarrow> world \<Rightarrow> response outcome \<times> world" where
  "dashboard_users env h w =
     catch_401
       (case getAuthenticatedUser env of
          Inl e \<Rightarrow> (Inl e, w)
        | Inr user \<Rightarrow>
           (case collection env h of
              Inl e \<Rightarrow> (Inl e, w)
            | Inr _ \<Rightarrow>
               (let users = coll_user_skills w;
                    cleanedUsers = map without_id users
                in (Inr (handleCORS (json_response
                      (JObj [(''users'', JArr (map JObj cleanedUsers))]) 200)), w))))"

text \<open>\<^verbatim>\<open>POST /jobs/match\<close>, a placeholder that echoes the skills of the body.\<close>

definition jobs_match :: "backend \<Rightarrow> request \<Rightarrow> world \<Rightarrow> response outcome \<times> world" where
  "jobs_match env req w =
     catch_401
       (case getAuthenticatedUser env of
          Inl e \<Rightarrow> (Inl e, w)
        | Inr user \<Rightarrow>
           (case json_body req of
              Inl e \<Rightarrow> (Inl e, w)
            | Inr body \<Rightarrow>
               (case get_prop body ''skills'' of
                  Inl e \<Rightarrow> (Inl e, w)
                | Inr sk \<Rightarrow>
                   (Inr (handleCORS (json_response
                      (JObj [(''message'', JStr ''Job matching logic placeholder''),
                             (''userSkills'', sk)]) 200)), w))))"

text \<open>
  \<^verbatim>\<open>POST /status\<close>. \<^verbatim>\<open>insertOne\<close> adds the field \<^verbatim>\<open>_id\<close> to the object it is given,
  so the object that the handler returns afterwards carries it.
\<close>

definition status_post ::
  "backend \<Rightarrow> request \<Rightarrow> bool \<Rightarrow> world \<Rightarrow> response outcome \<times> world" where
  "status_post env req h w =
     (case json_body req of
        Inl e \<Rightarrow> (Inl e, w)
      | Inr body \<Rightarrow>
         (case get_prop body ''client_name'' of
            Inl e \<Rightarrow> (Inl e, w)
          | Inr cn \<Rightarrow>
             if \<not> truthy cn then
               (Inr (handleCORS (json_response
                  (error_body ''client_name is required'') 400)), w)
             else
               (let statusObj =
                      [(''id'', JStr (uuid env)), (''client_name'', cn),
                       (''timestamp'', JStr (now env))]
                in case collection env h of
                     Inl e \<Rightarrow> (Inl e, w)
                   | Inr _ \<Rightarrow>
                      (let inserted = statusObj @ [(''_id'', JStr (objectId env))]
                       in (Inr (handleCORS (json_response (JObj inserted) 200)),
                           w\<lparr>coll_status_checks := coll_status_checks w @ [inserted]\<rparr>)))))"

text \<open>\<^verbatim>\<open>GET /status\<close>\<close>

definition status_get :: "backend \<Rightarrow> bool \<Rightarrow> world \<Rightarrow> response outcome \<times> world" where
  "status_get env h w =
     (case collection env h of
        Inl e \<Rightarrow> (Inl e, w)
      | Inr _ \<Rightarrow>
         (let statusChecks = take 1000 (coll_status_checks w);
              cleanedStatusChecks = map without_id statusChecks
          in (Inr (handleCORS (json_response (JArr (map JObj cleanedStatusChecks)) 200)), w)))"

subsection \<open>The dispatch\<close>

text \<open>
  The body of the outer \<^verbatim>\<open>try\<close> of \<^verbatim>\<open>handleRoute\<close>: the database handle first, then
  the first route whose path and method match, then the 404 response.
\<close>

definition route_body :: "backend \<Rightarrow> request \<Rightarrow> world \<Rightarrow> response outcome \<times> world" where
  "route_body env req w =
     (let route = route_of req; m = http_method req in
      case connectToMongo env w of
        (Inl e, w') \<Rightarrow> (Inl e, w')
      | (Inr h, w') \<Rightarrow>
          if route = ''/'' \<and> m = ''GET'' then
            (Inr (handleCORS (json_response
               (JObj [(''message'', JStr ''WorkWise API - Where Skills Meet Jobs'')]) 200)), w')
          else if route = ''/auth/signup'' \<and> m = ''POST'' then auth_signup env req w'
          else if route = ''/auth/signin'' \<and> m = ''POST'' then auth_signin env req w'
          else if route = ''/auth/signout'' \<and> m = ''POST'' then auth_signout env w'
          else if route = ''/auth/user'' \<and> m = ''GET'' then auth_user_get env w'
          else if route = ''/user/skills'' \<and> m = ''GET'' then user_skills_get env h w'
          else if route = ''/user/skills'' \<and> m = ''POST'' then user_skills_post env req h w'
          else if route = ''/dashboard/users'' \<and> m = ''GET'' then dashboard_users env h w'
          else if route = ''/jobs/match'' \<and> m = ''POST'' then jobs_match env req w'
          else if route = ''/status'' \<and> m = ''POST'' then status_post env req h w'
          else if route = ''/status'' \<and> m = ''GET'' then status_get env h w'
          else
            (Inr (handleCORS (json_response
               (error_body (''Route '' @ route @ '' not found'')) 404)), w'))"

text \<open>
  \<^verbatim>\<open>handleRoute\<close>, exported for GET, POST, PUT, DELETE and PATCH: the outer \<^verbatim>\<open>catch\<close>
  turns every error that reaches it into the response 500.
\<close>

definition handleRoute :: "backend \<Rightarrow> request \<Rightarrow> world \<Rightarrow> response \<times> world" where
  "handleRoute env req w =
     (case route_body env req w of
        (Inl e, w') \<Rightarrow>
          (handleCORS (json_response (error_body ''Internal server error'') 500), w')
      | (Inr resp, w') \<Rightarrow> (resp, w'))"


text \<open>Example requests and collaborators for the handler.\<close>

definition example_user :: auth_user where
  "example_user = \<lparr>user_id = ''u1'', email = ''a@example.org''\<rparr>"

definition healthy :: backend where
  "healthy =
     \<lparr>new_client = None, connect = None, getUser = Inr (Some example_user),
      signUp = (\<lambda>em pw. Inr \<lparr>data_user = JObj [(''email'', em)], data_session = JNull,
        error_message = None\<rparr>),
      signInWithPassword = (\<lambda>em pw. Inr \<lparr>data_user = JObj [(''email'', em)],
        data_session = JObj [(''token'', JStr ''t'')], error_message = None\<rparr>),
      signOut = Inr None, collection_error = None,
      now = ''2024-05-01T10:00:00.000Z'', uuid = ''0000-0001'',
      objectId = ''6631f2a0c1d2e3f4a5b6c7d8''\<rparr>"

definition fresh :: world where
  "fresh = \<lparr>client = False, db = False, coll_user_skills = [], coll_status_checks = []\<rparr>"

definition with_record :: world where
  "with_record =
     \<lparr>client = True, db = True,
      coll_user_skills =
        [[(''userId'', JStr ''u0''), (''userEmail'', JStr ''z@example.org''),
          (''skills'', JArr [JStr ''Design'']), (''updatedAt'', JStr ''2024-04-01T08:00:00.000Z'')],
         [(''userId'', JStr ''u1''), (''userEmail'', JStr ''a@example.org''),
          (''skills'', JArr [JStr ''Coding'']), (''updatedAt'', JStr ''2024-04-02T08:00:00.000Z'')]],
      coll_status_checks = []\<rparr>"

definition four_skills :: jsval where
  "four_skills = JArr [JStr ''Coding'', JStr ''Design'', JStr ''Writing'', JStr ''Cooking'']"

definition post_skills :: "jsval \<Rightarrow> request" where
  "post_skills b = \<lparr>path = [''user'', ''skills''], http_method = ''POST'', json_body = Inr b\<rparr>"

definition get_skills :: request where
  "get_skills = \<lparr>path = [''user'', ''skills''], http_method = ''GET'',
     json_body = Inl ''Unexpected end of JSON input''\<rparr>"

definition without_skills :: world where
  "without_skills =
     \<lparr>client = True, db = True,
      coll_user_skills =
        [[(''userId'', JStr ''u1''), (''userEmail'', JStr ''a@example.org''),
          (''updatedAt'', JStr ''2024-04-02T08:00:00.000Z'')]],
      coll_status_checks = []\<rparr>"





definition failing_store :: backend where
  "failing_store = healthy\<lparr>collection_error := Some ''connection pool closed''\<rparr>"

section \<open>Verification of the matcher\<close>

lemma array_includes_iff: "array_includes xs x \<longleftrightarrow> x \<in> set xs"
  by (simp add: array_includes_def)

lemma hasMatchingSkill_iff: "hasMatchingSkill us j \<longleftrightarrow> set (tags j) \<inter> set us \<noteq> {}"
  by (auto simp: hasMatchingSkill_def list_ex_iff array_includes_iff)

lemma matches_eq: "matches us j = length (filter (\<lambda>t. t \<in> set us) (tags j))"
  by (simp add: matches_def array_includes_def)

lemma matchesFilter_iff:
  "matchesFilter f j \<longleftrightarrow> f = ''all'' \<or> remove1 (CHR ''-'') (toLowerCase (job_type j)) = f"
  by (simp add: matchesFilter_def normalize_type_def replace_hyphen_def)

lemma insert_by_matches:
  "insert_by (by_matches us) x ys = insort_key (\<lambda>j. - int (matches us j)) x ys"
  by (induction ys) (auto simp: by_matches_def)

lemma array_sort_by_matches:
  "array_sort (by_matches us) xs = sort_key (\<lambda>j. - int (matches us j)) xs"
proof -
  have "insert_by (by_matches us) = insort_key (\<lambda>j. - int (matches us j))"
    by (intro ext) (rule insert_by_matches)
  then show ?thesis by (simp add: array_sort_def sort_key_def)
qed

lemma match_unfold:
  "match J S f =
     (if S = [] then []
      else array_sort (by_matches S) (filter (\<lambda>j. hasMatchingSkill S j \<and> matchesFilter f j) J))"
  by (simp add: match_def findMatchedJobs_def Let_def)

lemma set_match:
  "set (match J S f) = {j \<in> set J. hasMatchingSkill S j \<and> matchesFilter f j}"
  by (auto simp: match_unfold array_sort_by_matches hasMatchingSkill_iff)

lemma filter_id_hyphen: "CHR ''-'' \<notin> set s \<Longrightarrow> filter (\<lambda>c. c \<noteq> CHR ''-'') s = s"
  by (induction s) auto

lemma filter_hyphen_remove1:
  "count_list s (CHR ''-'') \<le> 1 \<Longrightarrow> filter (\<lambda>c. c \<noteq> CHR ''-'') s = remove1 (CHR ''-'') s"
proof (induction s)
  case Nil
  then show ?case by simp
next
  case (Cons c s)
  show ?case
  proof (cases "c = CHR ''-''")
    case True
    with Cons.prems have "count_list s (CHR ''-'') = 0" by simp
    then have "CHR ''-'' \<notin> set s" by (simp add: count_list_0_iff)
    with True show ?thesis by (simp add: filter_id_hyphen)
  next
    case False
    with Cons show ?thesis by simp
  qed
qed

lemma lower_char_hyphen: "lower_char c = CHR ''-'' \<longleftrightarrow> c = CHR ''-''"
proof -
  define n where "n = (of_char c :: nat)"
  have h: "of_char (CHR ''-'') = (45::nat)" by simp
  show ?thesis
  proof (cases "(65 \<le> n \<and> n \<le> 90) \<or> (192 \<le> n \<and> n \<le> 214) \<or> (216 \<le> n \<and> n \<le> 222)")
    case True
    have "of_char (lower_char c) = (n + 32) mod 256"
      using True by (simp add: lower_char_def n_def Let_def)
    with True have "of_char (lower_char c) = n + 32" by auto
    with True h have "lower_char c \<noteq> CHR ''-''" by auto
    moreover from True h have "c \<noteq> CHR ''-''" by (auto simp: n_def)
    ultimately show ?thesis by simp
  next
    case False
    then show ?thesis by (auto simp add: lower_char_def n_def Let_def)
  qed
qed

lemma count_lower_hyphen: "count_list (toLowerCase s) (CHR ''-'') = count_list s (CHR ''-'')"
  by (induction s) (simp_all add: toLowerCase_def lower_char_hyphen)

lemma remove1_hyphen_free:
  "CHR ''-'' \<notin> set (remove1 (CHR ''-'') s) \<Longrightarrow>
     filter (\<lambda>c. c \<noteq> CHR ''-'') s = remove1 (CHR ''-'') s"
proof (induction s)
  case Nil
  then show ?case by simp
next
  case (Cons c s)
  show ?case
  proof (cases "c = CHR ''-''")
    case True
    with Cons.prems have "CHR ''-'' \<notin> set s" by simp
    with True show ?thesis by (simp add: filter_id_hyphen)
  next
    case False
    with Cons show ?thesis by simp
  qed
qed

lemma normalize_eq_spec:
  "count_list t (CHR ''-'') \<le> 1 \<Longrightarrow> normalize_type t = spec_normalize_type t"
  by (simp add: normalize_type_def spec_normalize_type_def replace_hyphen_def
      filter_hyphen_remove1 count_lower_hyphen)

lemma normalize_hyphen_free:
  "CHR ''-'' \<notin> set (normalize_type t) \<Longrightarrow> spec_normalize_type t = normalize_type t"
  by (simp add: normalize_type_def spec_normalize_type_def replace_hyphen_def remove1_hyphen_free)

text \<open>
  Claim C1, as stated with the normalization of the specification (lowercased, hyphens
  removed), fails: Job E is in the catalog, shares the tag Coding with the skills, and its
  type \<open>Part--Time\<close> without its hyphens is \<open>parttime\<close>, yet the matcher leaves it out
  under the filter \<open>parttime\<close>, since the code removes the first hyphen only.
\<close>

theorem matcher_filter_counterexample:
  "example_jobE \<in> set [example_jobE] \<and>
   set (tags example_jobE) \<inter> set [''Coding''] \<noteq> {} \<and>
   job_type example_jobE = ''Part--Time'' \<and>
   spec_normalize_type (job_type example_jobE) = ''parttime'' \<and>
   remove1 (CHR ''-'') (toLowerCase (job_type example_jobE)) = ''part-time'' \<and>
   example_jobE \<notin> set (match [example_jobE] [''Coding''] ''parttime'')"
proof -
  have t: "tags example_jobE = [''Coding'']" "job_type example_jobE = ''Part--Time''"
    by (simp_all add: example_jobE_def)
  have n: "spec_normalize_type ''Part--Time'' = ''parttime''"
    "remove1 (CHR ''-'') (toLowerCase ''Part--Time'') = ''part-time''"
    by code_simp+
  have m: "match [example_jobE] [''Coding''] ''parttime'' = []" by code_simp
  from t n m show ?thesis by simp
qed

text \<open>
  Claim C1, amended. A job is in the matcher's output exactly when it is a job of the
  catalog that shares at least one tag with the user's skills and passes the type filter:
  the filter is \<open>all\<close>, or the job's type, lowercased and with its first hyphen removed,
  equals the filter. For a job whose type holds at most one hyphen, as Permanent,
  Part-Time and One-Time do, this is the type lowercased with all hyphens removed. In
  particular every job of \<open>match J S all\<close> shares a tag with \<open>S\<close>, and a job that shares no
  tag is excluded under every filter.
\<close>

theorem matcher_filter:
  "(j \<in> set (match J S f) \<longleftrightarrow>
      j \<in> set J \<and> set (tags j) \<inter> set S \<noteq> {} \<and>
      (f = ''all'' \<or> remove1 (CHR ''-'') (toLowerCase (job_type j)) = f)) \<and>
   (count_list (job_type j) (CHR ''-'') \<le> 1 \<longrightarrow>
      (j \<in> set (match J S f) \<longleftrightarrow>
         j \<in> set J \<and> set (tags j) \<inter> set S \<noteq> {} \<and>
         (f = ''all'' \<or> spec_normalize_type (job_type j) = f))) \<and>
   (\<forall>x\<in>set (match J S ''all''). set (tags x) \<inter> set S \<noteq> {}) \<and>
   (j \<in> set J \<and> set (tags j) \<inter> set S = {} \<longrightarrow> j \<notin> set (match J S f))"
proof -
  have code: "j \<in> set (match J S f) \<longleftrightarrow>
      j \<in> set J \<and> set (tags j) \<inter> set S \<noteq> {} \<and>
      (f = ''all'' \<or> remove1 (CHR ''-'') (toLowerCase (job_type j)) = f)" for j f
    by (simp add: set_match hasMatchingSkill_iff matchesFilter_iff)
  have spec: "j \<in> set (match J S f) \<longleftrightarrow>
         j \<in> set J \<and> set (tags j) \<inter> set S \<noteq> {} \<and>
         (f = ''all'' \<or> spec_normalize_type (job_type j) = f)"
    if "count_list (job_type j) (CHR ''-'') \<le> 1"
  proof -
    from that have "remove1 (CHR ''-'') (toLowerCase (job_type j)) = spec_normalize_type (job_type j)"
      using normalize_eq_spec [of "job_type j"]
      by (simp add: normalize_type_def replace_hyphen_def)
    then show ?thesis by (simp add: code)
  qed
  have all: "\<forall>x\<in>set (match J S ''all''). set (tags x) \<inter> set S \<noteq> {}"
    by (simp add: code)
  have none: "j \<in> set J \<and> set (tags j) \<inter> set S = {} \<longrightarrow> j \<notin> set (match J S f)"
    by (simp add: code)
  from code spec all none show ?thesis by blast
qed

text \<open>The amended theorem of C1 at the example catalog, the skills Coding and Design and
  the filter parttime: Job B, of type Part-Time, is included; Job C shares no tag and is
  excluded.\<close>

theorem matcher_filter_witness:
  "count_list (job_type example_jobB) (CHR ''-'') \<le> 1 \<and>
   example_jobB \<in> set example_jobs \<and>
   set (tags example_jobB) \<inter> set [''Coding'', ''Design''] \<noteq> {} \<and>
   spec_normalize_type (job_type example_jobB) = ''parttime'' \<and>
   example_jobB \<in> set (match example_jobs [''Coding'', ''Design''] ''parttime'') \<and>
   example_jobC \<in> set example_jobs \<and>
   set (tags example_jobC) \<inter> set [''Coding'', ''Design''] = {} \<and>
   example_jobC \<notin> set (match example_jobs [''Coding'', ''Design''] ''all'')"
proof -
  have h: "count_list (job_type example_jobB) (CHR ''-'') \<le> 1"
    by code_simp
  have m: "example_jobB \<in> set example_jobs" "example_jobC \<in> set example_jobs"
    by (simp_all add: example_jobs_def)
  have t: "set (tags example_jobB) \<inter> set [''Coding'', ''Design''] \<noteq> {}"
    by (simp add: example_jobB_def)
  have u: "set (tags example_jobC) \<inter> set [''Coding'', ''Design''] = {}"
    by (simp add: example_jobC_def)
  have n: "spec_normalize_type (job_type example_jobB) = ''parttime''" by code_simp
  from matcher_filter [of example_jobB example_jobs "[''Coding'', ''Design'']" "''parttime''"]
    matcher_filter [of example_jobC example_jobs "[''Coding'', ''Design'']" "''all''"]
    h m t u n
  show ?thesis by blast
qed

text \<open>
  Claim C2. The matcher's output is sorted in descending order of the number of tags of
  the job that are among the user's skills, and the sort is stable: for every count \<open>k\<close>,
  the jobs of the output with exactly \<open>k\<close> shared tags are the jobs of the catalog with
  \<open>k\<close> shared tags that pass the filter, in catalog order. This holds for every skill
  list, so for every non-empty one.
\<close>

theorem matcher_order:
  "sorted_wrt
     (\<lambda>a b. length (filter (\<lambda>t. t \<in> set S) (tags b)) \<le> length (filter (\<lambda>t. t \<in> set S) (tags a)))
     (match J S f) \<and>
   (\<forall>k. filter (\<lambda>j. length (filter (\<lambda>t. t \<in> set S) (tags j)) = k) (match J S f) =
        filter (\<lambda>j. length (filter (\<lambda>t. t \<in> set S) (tags j)) = k \<and>
                   set (tags j) \<inter> set S \<noteq> {} \<and>
                   (f = ''all'' \<or> remove1 (CHR ''-'') (toLowerCase (job_type j)) = f)) J)"
proof -
  let ?shared = "\<lambda>j. length (filter (\<lambda>t. t \<in> set S) (tags j))"
  let ?key = "\<lambda>j. - int (?shared j)"
  let ?pass = "\<lambda>j. set (tags j) \<inter> set S \<noteq> {} \<and>
      (f = ''all'' \<or> remove1 (CHR ''-'') (toLowerCase (job_type j)) = f)"
  have m: "match J S f = sort_key ?key (filter ?pass J)"
  proof (cases "S = []")
    case True
    then show ?thesis by (simp add: match_unfold)
  next
    case False
    then show ?thesis
      by (simp add: match_unfold array_sort_by_matches matches_eq hasMatchingSkill_iff
          matchesFilter_iff)
  qed
  have "sorted (map ?key (sort_key ?key (filter ?pass J)))" by (rule sorted_sort_key)
  then have descending: "sorted_wrt (\<lambda>a b. ?shared b \<le> ?shared a) (match J S f)"
    by (simp add: m sorted_map)
  have stable: "filter (\<lambda>j. ?shared j = k) (match J S f) =
      filter (\<lambda>j. ?shared j = k \<and> ?pass j) J" for k
  proof -
    have "filter (\<lambda>j. ?key j = - int k) (sort_key ?key (filter ?pass J)) =
        filter (\<lambda>j. ?key j = - int k) (filter ?pass J)"
      by (rule sort_key_stable)
    then have "filter (\<lambda>j. ?shared j = k) (match J S f) =
        filter (\<lambda>j. ?shared j = k) (filter ?pass J)"
      by (simp add: m)
    also have "\<dots> = filter (\<lambda>j. ?shared j = k \<and> ?pass j) J"
      by (auto simp: filter_filter intro: filter_cong)
    finally show ?thesis .
  qed
  from descending stable show ?thesis by blast
qed

text \<open>The theorem of C2 at the example catalog: Job B (two shared tags) comes first, then
  Job A and Job D (one shared tag each) in catalog order.\<close>

theorem matcher_order_witness:
  "[''Coding'', ''Design''] \<noteq> [] \<and>
   match example_jobs [''Coding'', ''Design''] ''all'' = [example_jobB, example_jobA, example_jobD] \<and>
   map (\<lambda>j. length (filter (\<lambda>t. t \<in> set [''Coding'', ''Design'']) (tags j)))
     [example_jobB, example_jobA, example_jobD] = [2, 1, 1] \<and>
   sorted_wrt
     (\<lambda>a b. length (filter (\<lambda>t. t \<in> set [''Coding'', ''Design'']) (tags b))
          \<le> length (filter (\<lambda>t. t \<in> set [''Coding'', ''Design'']) (tags a)))
     [example_jobB, example_jobA, example_jobD] \<and>
   filter (\<lambda>j. length (filter (\<lambda>t. t \<in> set [''Coding'', ''Design'']) (tags j)) = 1)
     (match example_jobs [''Coding'', ''Design''] ''all'') = [example_jobA, example_jobD]"
proof -
  have e: "match example_jobs [''Coding'', ''Design''] ''all'' =
      [example_jobB, example_jobA, example_jobD]"
    by code_simp
  have c: "map (\<lambda>j. length (filter (\<lambda>t. t \<in> set [''Coding'', ''Design'']) (tags j)))
     [example_jobB, example_jobA, example_jobD] = [2, 1, 1]"
    by (simp add: example_jobA_def example_jobB_def example_jobD_def)
  then have k: "filter (\<lambda>j. length (filter (\<lambda>t. t \<in> set [''Coding'', ''Design'']) (tags j)) = 1)
     [example_jobB, example_jobA, example_jobD] = [example_jobA, example_jobD]"
    by simp
  from matcher_order [of "[''Coding'', ''Design'']" example_jobs "''all''"] e c k
  show ?thesis by simp
qed

text \<open>
  Claim C3. Under the filter \<open>parttime\<close> a job is included only if its type, lowercased and
  with all hyphens removed, equals \<open>parttime\<close>; the same holds for each of the filter values
  \<open>permanent\<close>, \<open>parttime\<close> and \<open>onetime\<close>, and for every filter value other than \<open>all\<close>
  that holds no hyphen itself.
\<close>

theorem matcher_type_filter:
  "(j \<in> set (match J S ''parttime'') \<longrightarrow> spec_normalize_type (job_type j) = ''parttime'') \<and>
   (f \<in> {''permanent'', ''parttime'', ''onetime''} \<and> j \<in> set (match J S f) \<longrightarrow>
      spec_normalize_type (job_type j) = f) \<and>
   (f \<noteq> ''all'' \<and> CHR ''-'' \<notin> set f \<and> j \<in> set (match J S f) \<longrightarrow>
      spec_normalize_type (job_type j) = f)"
proof -
  have gen: "spec_normalize_type (job_type j) = f"
    if "f \<noteq> ''all''" "CHR ''-'' \<notin> set f" "j \<in> set (match J S f)" for f
  proof -
    from that(1,3) have "normalize_type (job_type j) = f"
      by (simp add: set_match matchesFilter_def)
    with that(2) show ?thesis by (simp add: normalize_hyphen_free)
  qed
  have offered: "f \<noteq> ''all'' \<and> CHR ''-'' \<notin> set f"
    if "f \<in> {''permanent'', ''parttime'', ''onetime''}" for f
    using that by auto
  from gen [of "''parttime''"] gen [of f] offered [of "''parttime''"] offered [of f]
  show ?thesis by blast
qed

text \<open>The theorem of C3 at the filter onetime and Job D, of type One-Time.\<close>

theorem matcher_type_filter_witness:
  "''onetime'' \<noteq> ''all'' \<and> CHR ''-'' \<notin> set ''onetime'' \<and>
   example_jobD \<in> set (match example_jobs [''Coding'', ''Design''] ''onetime'') \<and>
   job_type example_jobD = ''One-Time'' \<and>
   spec_normalize_type (job_type example_jobD) = ''onetime''"
proof -
  have e: "match example_jobs [''Coding'', ''Design''] ''onetime'' = [example_jobD]"
    by code_simp
  have t: "job_type example_jobD = ''One-Time''" by (simp add: example_jobD_def)
  from matcher_type_filter [of example_jobD example_jobs "[''Coding'', ''Design'']" "''onetime''"] e t
  show ?thesis by simp
qed

text \<open>
  Claim C4. With an empty skill list the matcher returns the empty list, for every catalog
  and every type filter.
\<close>

theorem matcher_empty_skills:
  "match J [] f = [] \<and>
   matchedJobs (findMatchedJobs skillsJobsData (st\<lparr>userSkills := []\<rparr>)) = []"
  by (simp add: match_def findMatchedJobs_def)

text \<open>The theorem of C4 at the example catalog, next to a non-empty result for one skill.\<close>

theorem matcher_empty_skills_witness:
  "match example_jobs [] ''all'' = [] \<and> match example_jobs [] ''parttime'' = [] \<and>
   match example_jobs [''Coding''] ''all'' \<noteq> []"
proof -
  have e: "match example_jobs [''Coding''] ''all'' = [example_jobA, example_jobB]"
    by code_simp
  from matcher_empty_skills [of example_jobs "''all''"]
    matcher_empty_skills [of example_jobs "''parttime''"] e
  show ?thesis by simp
qed

section \<open>Verification of the dashboard aggregator\<close>

lemma map_of_own_set: "map_of (own_set ps k v) = (map_of ps)(k \<mapsto> v)"
  by (induction ps) (auto simp: fun_eq_iff)

lemma keys_own_set:
  "map fst (own_set ps k v) = (if k \<in> set (map fst ps) then map fst ps else map fst ps @ [k])"
  by (induction ps) auto

lemma map_of_obj_set:
  "map_of (obj_set ps k v) = (if k = ''__proto__'' then map_of ps else (map_of ps)(k \<mapsto> v))"
  by (simp add: obj_set_def map_of_own_set)

lemma keys_obj_set:
  "map fst (obj_set ps k v) =
     (if k = ''__proto__'' \<or> k \<in> set (map fst ps) then map fst ps else map fst ps @ [k])"
  by (simp add: obj_set_def keys_own_set)

lemma mset_own_entries: "mset (own_entries ps) = mset ps"
  by (simp add: own_entries_def)

lemma distinct_own_entries:
  "distinct (map fst ps) \<Longrightarrow> distinct (map fst (own_entries ps))"
proof -
  have m: "mset (map fst (own_entries ps)) = mset (map fst ps)"
    by (simp only: mset_map mset_own_entries)
  assume "distinct (map fst ps)"
  with mset_eq_imp_distinct_iff [OF m] show "distinct (map fst (own_entries ps))"
    by blast
qed

lemma map_of_own_entries:
  assumes "distinct (map fst ps)"
  shows "map_of (own_entries ps) = map_of ps"
proof -
  have "set (own_entries ps) = set ps"
    using mset_own_entries [of ps] by (rule mset_eq_setD)
  with assms distinct_own_entries [OF assms] show ?thesis
    by (simp add: map_of_inject_set)
qed

lemma zip_keys_values: "zip (object_keys ps) (object_values ps) = own_entries ps"
  by (simp add: object_keys_def object_values_def zip_map_fst_snd)

lemma map_fst_insort_key:
  "map fst (insort_key (\<lambda>p. f (fst p)) x xs) = insort_key f (fst x) (map fst xs)"
  by (induction xs) simp_all

lemma map_fst_sort_key: "map fst (sort_key (\<lambda>p. f (fst p)) xs) = sort_key f (map fst xs)"
  by (induction xs) (simp_all add: map_fst_insort_key)

lemma keys_own_entries: "map fst (own_entries ps) = property_order (map fst ps)"
  by (simp add: own_entries_def property_order_def map_fst_sort_key filter_map comp_def)

lemma property_order_plain:
  "\<forall>k\<in>set ks. \<not> is_array_index k \<Longrightarrow> property_order ks = ks"
  by (simp add: property_order_def filter_empty_conv filter_id_conv)

lemma see_loop_distinct: "distinct seen \<Longrightarrow> distinct (foldl see seen xs)"
  by (induction xs arbitrary: seen) (simp_all add: see_def)

lemma see_loop_set: "set (foldl see seen xs) = set seen \<union> set xs"
  by (induction xs arbitrary: seen) (auto simp: see_def)

lemma first_seen_set: "set (first_seen xs) = set xs"
  by (simp add: first_seen_def see_loop_set)

lemma length_filter_mset: "mset xs = mset ys \<Longrightarrow> length (filter P xs) = length (filter P ys)"
proof -
  assume "mset xs = mset ys"
  then have "mset (filter P xs) = mset (filter P ys)" by simp
  then show ?thesis by (rule mset_eq_length)
qed

text \<open>The loop of \<open>skillCounts\<close>, from any starting object.\<close>

lemma skill_loop_map_of:
  "map_of (foldl (count_skill U) acc ss) n =
     (if n \<in> name ` set ss \<and> n \<noteq> ''__proto__''
      then Some (length (filter (user_has_skill n) U)) else map_of acc n)"
  by (induction ss arbitrary: acc) (auto simp: count_skill_def map_of_obj_set)

lemma skill_loop_keys:
  "map fst (foldl (count_skill U) acc ss) =
     foldl see (map fst acc) (filter (\<lambda>k. k \<noteq> ''__proto__'') (map name ss))"
  by (induction ss arbitrary: acc) (simp_all add: count_skill_def keys_obj_set see_def)

lemma skillCounts_map_of:
  "map_of (skillCounts d st) n =
     (if n \<in> name ` set (skills d) \<and> n \<noteq> ''__proto__''
      then Some (length (filter (user_has_skill n) (allUsers st))) else None)"
  by (simp add: skillCounts_def skill_loop_map_of)

lemma skillCounts_keys:
  "map fst (skillCounts d st) =
     first_seen (filter (\<lambda>k. k \<noteq> ''__proto__'') (map name (skills d)))"
  by (simp add: skillCounts_def first_seen_def skill_loop_keys)

lemma skillCounts_distinct: "distinct (map fst (skillCounts d st))"
  by (simp add: skillCounts_keys first_seen_def see_loop_distinct)

lemma skillFrequency_entries:
  "skillFrequency S U =
     own_entries (skillCounts \<lparr>skills = S, jobs = []\<rparr>
       \<lparr>userSkills = [], jobFilter = ''all'', matchedJobs = [], allUsers = U\<rparr>)"
  by (simp add: skillFrequency_def chart_entries_def getSkillFrequencyData_def Let_def
      zip_keys_values)

lemma skillFrequency_map_of:
  "map_of (skillFrequency S U) n =
     (if n \<in> name ` set S \<and> n \<noteq> ''__proto__''
      then Some (length (filter (user_has_skill n) U)) else None)"
  by (simp add: skillFrequency_entries map_of_own_entries skillCounts_distinct skillCounts_map_of)

lemma skillFrequency_distinct: "distinct (map fst (skillFrequency S U))"
  by (simp add: skillFrequency_entries distinct_own_entries skillCounts_distinct)

lemma skillFrequency_keys:
  "map fst (skillFrequency S U) =
     property_order (first_seen (filter (\<lambda>k. k \<noteq> ''__proto__'') (map name S)))"
  by (simp add: skillFrequency_entries keys_own_entries skillCounts_keys)

lemma user_has_skill_iff:
  "user_has_skill n u \<longleftrightarrow> (\<exists>ss. user_skills u = Some ss \<and> n \<in> set ss)"
  by (auto simp: user_has_skill_def array_includes_def split: option.splits)

lemma skillFrequency_perm:
  assumes "mset U = mset U'"
  shows "skillFrequency S U = skillFrequency S U'"
proof -
  have "count_skill U = count_skill U'"
    by (intro ext) (simp add: count_skill_def length_filter_mset [OF assms])
  then show ?thesis by (simp add: skillFrequency_entries skillCounts_def)
qed

text \<open>The loop of \<open>categoryCounts\<close>, from any starting object.\<close>

lemma proto_is_inherited: "''__proto__'' \<in> set object_prototype_names"
  by (simp add: object_prototype_names_def)

lemma category_step_same:
  assumes "category j \<noteq> ''__proto__''"
    and "(map_of acc (category j) = None \<and> m = 0) \<or>
         (0 < m \<and> map_of acc (category j) = Some (counted (category j) m))"
  shows "map_of (count_category acc j) (category j) = Some (counted (category j) (Suc m))"
  using assms
  by (auto simp: count_category_def map_of_obj_set obj_get_def or_zero_plus_one_def counted_def)

lemma category_step_other:
  "category j \<noteq> c \<Longrightarrow> map_of (count_category acc j) c = map_of acc c"
  by (simp add: count_category_def map_of_obj_set)

lemma category_loop_map_of:
  assumes "c \<noteq> ''__proto__''"
    and "(map_of acc c = None \<and> m = 0) \<or> (0 < m \<and> map_of acc c = Some (counted c m))"
  shows "map_of (foldl count_category acc js) c =
     (if c \<in> category ` set js
      then Some (counted c (m + length (filter (\<lambda>j. category j = c) js)))
      else map_of acc c)"
  using assms(2)
proof (induction js arbitrary: acc m)
  case Nil
  then show ?case by simp
next
  case (Cons j js)
  show ?case
  proof (cases "category j = c")
    case True
    with assms(1) Cons.prems
    have s: "map_of (count_category acc j) c = Some (counted c (Suc m))"
      using category_step_same [of j acc m] by simp
    then have "(map_of (count_category acc j) c = None \<and> Suc m = 0) \<or>
        (0 < Suc m \<and> map_of (count_category acc j) c = Some (counted c (Suc m)))"
      by simp
    moreover have "filter (\<lambda>j. category j = c) js = []" if "c \<notin> category ` set js"
      using that by (auto simp: filter_empty_conv)
    ultimately show ?thesis
      using Cons.IH [of "count_category acc j" "Suc m"] s True by auto
  next
    case False
    then have s: "map_of (count_category acc j) c = map_of acc c"
      by (rule category_step_other)
    with Cons.prems
    have "(map_of (count_category acc j) c = None \<and> m = 0) \<or>
        (0 < m \<and> map_of (count_category acc j) c = Some (counted c m))"
      by simp
    from Cons.IH [OF this] s False show ?thesis by auto
  qed
qed

lemma category_loop_proto:
  "map_of (foldl count_category acc js) ''__proto__'' = map_of acc ''__proto__''"
  by (induction js arbitrary: acc) (simp_all add: count_category_def map_of_obj_set)

lemma category_loop_keys:
  "map fst (foldl count_category acc js) =
     foldl see (map fst acc) (filter (\<lambda>k. k \<noteq> ''__proto__'') (map category js))"
  by (induction js arbitrary: acc) (simp_all add: count_category_def keys_obj_set see_def)

lemma categoryCounts_map_of:
  "map_of (categoryCounts d) c =
     (if c \<in> category ` set (jobs d) \<and> c \<noteq> ''__proto__''
      then Some (counted c (length (filter (\<lambda>j. category j = c) (jobs d)))) else None)"
proof (cases "c = ''__proto__''")
  case True
  then show ?thesis by (simp add: categoryCounts_def category_loop_proto)
next
  case False
  then show ?thesis
    using category_loop_map_of [of c "[]" 0 "jobs d"] by (simp add: categoryCounts_def)
qed

lemma categoryCounts_keys:
  "map fst (categoryCounts d) =
     first_seen (filter (\<lambda>k. k \<noteq> ''__proto__'') (map category (jobs d)))"
  by (simp add: categoryCounts_def first_seen_def category_loop_keys)

lemma categoryCounts_distinct: "distinct (map fst (categoryCounts d))"
  by (simp add: categoryCounts_keys first_seen_def see_loop_distinct)

lemma jobDemand_entries: "jobDemand J = own_entries (categoryCounts \<lparr>skills = [], jobs = J\<rparr>)"
  by (simp add: jobDemand_def chart_entries_def getJobDemandData_def Let_def zip_keys_values)

lemma jobDemand_map_of:
  "map_of (jobDemand J) c =
     (if c \<in> category ` set J \<and> c \<noteq> ''__proto__''
      then Some (counted c (length (filter (\<lambda>j. category j = c) J))) else None)"
  by (simp add: jobDemand_entries map_of_own_entries categoryCounts_distinct categoryCounts_map_of)

lemma jobDemand_distinct: "distinct (map fst (jobDemand J))"
  by (simp add: jobDemand_entries distinct_own_entries categoryCounts_distinct)

lemma jobDemand_keys:
  "map fst (jobDemand J) =
     property_order (first_seen (filter (\<lambda>k. k \<noteq> ''__proto__'') (map category J)))"
  by (simp add: jobDemand_entries keys_own_entries categoryCounts_keys)

lemma jobDemand_perm:
  assumes "mset J = mset J'"
  shows "map_of (jobDemand J) = map_of (jobDemand J')"
proof
  fix c
  from assms have "set J = set J'" by (rule mset_eq_setD)
  with length_filter_mset [OF assms, of "\<lambda>j. category j = c"]
  show "map_of (jobDemand J) c = map_of (jobDemand J') c"
    by (simp add: jobDemand_map_of)
qed

lemma filter_not_proto: "\<forall>k\<in>set ks. k \<noteq> ''__proto__'' \<Longrightarrow> filter (\<lambda>k. k \<noteq> ''__proto__'') ks = ks"
  by (simp add: filter_id_conv)

text \<open>
  Claim C7, as stated, fails for a catalog that holds a skill named \<^verbatim>\<open>__proto__\<close>: the
  assignment to this key of the object literal writes nothing, so the skill is not
  present in the output at all, neither with its count nor with 0.
\<close>

theorem skill_frequency_counterexample:
  "map name proto_skills = [''__proto__'', ''Coding''] \<and>
   skillFrequency proto_skills example_users = [(''Coding'', 2)] \<and>
   map_of (skillFrequency proto_skills example_users) ''__proto__'' = None"
proof -
  have a: "map name proto_skills = [''__proto__'', ''Coding'']"
    by (simp add: proto_skills_def)
  have b: "skillFrequency proto_skills example_users = [(''Coding'', 2)]" by code_simp
  from a b show ?thesis by simp
qed

text \<open>
  Claim C7, amended. \<open>skillFrequency\<close> maps every skill of the catalog whose name is not
  \<^verbatim>\<open>__proto__\<close> to the number of user records whose skills list includes the skill's
  name, where a record without a skills list includes nothing. Such a skill that no user
  holds is present with the count 0. The keys of the result are the names of the catalog
  other than \<^verbatim>\<open>__proto__\<close>, each once.
\<close>

theorem skill_frequency:
  "(\<forall>s\<in>set S. name s \<noteq> ''__proto__'' \<longrightarrow>
      map_of (skillFrequency S U) (name s) =
        Some (length (filter (\<lambda>u. \<exists>ss. user_skills u = Some ss \<and> name s \<in> set ss) U))) \<and>
   (\<forall>s\<in>set S. name s \<noteq> ''__proto__'' \<longrightarrow>
      (\<forall>u\<in>set U. \<forall>ss. user_skills u = Some ss \<longrightarrow> name s \<notin> set ss) \<longrightarrow>
      map_of (skillFrequency S U) (name s) = Some 0) \<and>
   set (map fst (skillFrequency S U)) = name ` set S - {''__proto__''} \<and>
   distinct (map fst (skillFrequency S U))"
proof -
  have f: "filter (user_has_skill n) U =
      filter (\<lambda>u. \<exists>ss. user_skills u = Some ss \<and> n \<in> set ss) U" for n
    by (rule filter_cong) (simp_all add: user_has_skill_iff)
  have a: "\<forall>s\<in>set S. name s \<noteq> ''__proto__'' \<longrightarrow>
      map_of (skillFrequency S U) (name s) =
        Some (length (filter (\<lambda>u. \<exists>ss. user_skills u = Some ss \<and> name s \<in> set ss) U))"
    by (simp add: skillFrequency_map_of f)
  have b: "\<forall>s\<in>set S. name s \<noteq> ''__proto__'' \<longrightarrow>
      (\<forall>u\<in>set U. \<forall>ss. user_skills u = Some ss \<longrightarrow> name s \<notin> set ss) \<longrightarrow>
      map_of (skillFrequency S U) (name s) = Some 0"
    by (auto simp: skillFrequency_map_of filter_empty_conv user_has_skill_iff)
  have "dom (map_of (skillFrequency S U)) = name ` set S - {''__proto__''}"
    by (auto simp: skillFrequency_map_of dom_def)
  then have c: "set (map fst (skillFrequency S U)) = name ` set S - {''__proto__''}"
    by (simp add: dom_map_of_conv_image_fst)
  from a b c skillFrequency_distinct show ?thesis by blast
qed

text \<open>The amended theorem of C7 at the example of the specification: Coding 2, Design 1
  and Writing, held by no user, 0.\<close>

theorem skill_frequency_witness:
  "skillFrequency example_skills example_users =
     [(''Coding'', 2), (''Design'', 1), (''Writing'', 0)] \<and>
   ''Coding'' \<noteq> ''__proto__'' \<and> ''Writing'' \<noteq> ''__proto__'' \<and>
   length (filter (\<lambda>u. \<exists>ss. user_skills u = Some ss \<and> ''Coding'' \<in> set ss) example_users) = 2 \<and>
   map_of (skillFrequency example_skills example_users) ''Coding'' = Some 2 \<and>
   list_all (\<lambda>u. \<forall>ss. user_skills u = Some ss \<longrightarrow> ''Writing'' \<notin> set ss) example_users \<and>
   map_of (skillFrequency example_skills example_users) ''Writing'' = Some 0"
proof -
  have e: "skillFrequency example_skills example_users =
      [(''Coding'', 2), (''Design'', 1), (''Writing'', 0)]"
    by code_simp
  have m: "\<lparr>skill_id = 1, name = ''Coding''\<rparr> \<in> set example_skills"
    "\<lparr>skill_id = 3, name = ''Writing''\<rparr> \<in> set example_skills"
    by (simp_all add: example_skills_def)
  have p: "''Coding'' \<noteq> ''__proto__''" "''Writing'' \<noteq> ''__proto__''" by simp_all
  have n: "length (filter (\<lambda>u. \<exists>ss. user_skills u = Some ss \<and> ''Coding'' \<in> set ss)
      example_users) = 2"
    by (simp add: example_users_def)
  have z: "\<forall>u\<in>set example_users. \<forall>ss. user_skills u = Some ss \<longrightarrow> ''Writing'' \<notin> set ss"
    by (simp add: example_users_def)
  then have l: "list_all (\<lambda>u. \<forall>ss. user_skills u = Some ss \<longrightarrow> ''Writing'' \<notin> set ss)
      example_users"
    by (simp add: list_all_iff)
  note t = skill_frequency [of example_skills example_users]
  from t have "\<forall>s\<in>set example_skills. name s \<noteq> ''__proto__'' \<longrightarrow>
      map_of (skillFrequency example_skills example_users) (name s) =
      Some (length (filter (\<lambda>u. \<exists>ss. user_skills u = Some ss \<and> name s \<in> set ss) example_users))"
    by (rule conjunct1)
  from bspec [OF this m(1)] p(1)
  have "map_of (skillFrequency example_skills example_users) ''Coding'' =
      Some (length (filter (\<lambda>u. \<exists>ss. user_skills u = Some ss \<and> ''Coding'' \<in> set ss)
        example_users))"
    by simp
  with n have c: "map_of (skillFrequency example_skills example_users) ''Coding'' = Some 2"
    by (simp only:)
  from t have "\<forall>s\<in>set example_skills. name s \<noteq> ''__proto__'' \<longrightarrow>
      (\<forall>u\<in>set example_users. \<forall>ss. user_skills u = Some ss \<longrightarrow> name s \<notin> set ss) \<longrightarrow>
      map_of (skillFrequency example_skills example_users) (name s) = Some 0"
    by blast
  from bspec [OF this m(2)] p(2) z
  have w: "map_of (skillFrequency example_skills example_users) ''Writing'' = Some 0"
    by simp
  from e p n c l w show ?thesis by (simp only: simp_thms)
qed

text \<open>
  Claim C8, as stated, fails for categories that name a member of \<^verbatim>\<open>Object.prototype\<close>.
  For a job of the category \<^verbatim>\<open>constructor\<close> the read finds the inherited member, so the
  value stored is that member's text with a 1 appended and not the number 1; and for a job
  of the category \<^verbatim>\<open>__proto__\<close> no key appears although a job has it.
\<close>

theorem job_demand_counterexample:
  "category constructor_job = ''constructor'' \<and>
   jobDemand [constructor_job] = [(''constructor'', Appended ''constructor'' 1)] \<and>
   map_of (jobDemand [constructor_job]) ''constructor'' \<noteq> Some (Number 1) \<and>
   category proto_job = ''__proto__'' \<and>
   jobDemand [proto_job] = [] \<and>
   ''__proto__'' \<notin> set (map fst (jobDemand [proto_job]))"
proof -
  have a: "category constructor_job = ''constructor''" "category proto_job = ''__proto__''"
    by (simp_all add: constructor_job_def proto_job_def)
  have b: "jobDemand [constructor_job] = [(''constructor'', Appended ''constructor'' 1)]"
    "jobDemand [proto_job] = []"
    by code_simp+
  from a b show ?thesis by simp
qed

text \<open>
  Claim C8, amended. \<open>jobDemand\<close> maps each category that occurs among the jobs and is not
  the name of a member of \<^verbatim>\<open>Object.prototype\<close> to the number of jobs of that category, and
  such a category that no job has is absent from the result. A category other than
  \<^verbatim>\<open>__proto__\<close> appears as a key exactly when at least one job has it. Every key appears
  once, and no key carries the number 0.
\<close>

theorem job_demand:
  "(c \<notin> set object_prototype_names \<longrightarrow>
      map_of (jobDemand J) c =
        (if c \<in> category ` set J
         then Some (Number (length (filter (\<lambda>j. category j = c) J))) else None)) \<and>
   (c \<noteq> ''__proto__'' \<longrightarrow> (c \<in> set (map fst (jobDemand J)) \<longleftrightarrow> c \<in> category ` set J)) \<and>
   distinct (map fst (jobDemand J)) \<and>
   (c, Number 0) \<notin> set (jobDemand J)"
proof -
  have a: "map_of (jobDemand J) c =
        (if c \<in> category ` set J
         then Some (Number (length (filter (\<lambda>j. category j = c) J))) else None)"
    if "c \<notin> set object_prototype_names"
  proof -
    from that have "c \<noteq> ''__proto__''" using proto_is_inherited by auto
    with that show ?thesis by (simp add: jobDemand_map_of counted_def)
  qed
  have "dom (map_of (jobDemand J)) = category ` set J - {''__proto__''}"
    by (auto simp: jobDemand_map_of dom_def)
  then have "set (map fst (jobDemand J)) = category ` set J - {''__proto__''}"
    by (simp add: dom_map_of_conv_image_fst)
  then have k: "c \<in> set (map fst (jobDemand J)) \<longleftrightarrow> c \<in> category ` set J"
    if "c \<noteq> ''__proto__''"
    using that by simp
  have z: "(c, Number 0) \<notin> set (jobDemand J)"
  proof
    assume "(c, Number 0) \<in> set (jobDemand J)"
    with jobDemand_distinct have m: "map_of (jobDemand J) c = Some (Number 0)" by simp
    then have "c \<in> category ` set J"
      and "counted c (length (filter (\<lambda>j. category j = c) J)) = Number 0"
      by (auto simp: jobDemand_map_of split: if_splits)
    then have "length (filter (\<lambda>j. category j = c) J) = 0"
      by (auto simp: counted_def split: if_splits)
    with \<open>c \<in> category ` set J\<close> show False by (auto simp: filter_empty_conv)
  qed
  from a k z jobDemand_distinct show ?thesis by blast
qed

text \<open>The amended theorem of C8 at the example catalog: Creative has three jobs, Finance
  has none and no entry.\<close>

theorem job_demand_witness:
  "''Creative'' \<notin> set object_prototype_names \<and> ''Finance'' \<notin> set object_prototype_names \<and>
   jobDemand example_jobs = [(''Technology'', Number 1), (''Creative'', Number 3)] \<and>
   map_of (jobDemand example_jobs) ''Creative'' = Some (Number 3) \<and>
   map_of (jobDemand example_jobs) ''Finance'' = None \<and>
   ''Finance'' \<notin> set (map fst (jobDemand example_jobs))"
proof -
  have e: "jobDemand example_jobs = [(''Technology'', Number 1), (''Creative'', Number 3)]"
    by code_simp
  have o: "''Creative'' \<notin> set object_prototype_names"
    "''Finance'' \<notin> set object_prototype_names"
    by (simp_all add: object_prototype_names_def)
  have p: "''Finance'' \<noteq> ''__proto__''" by simp
  have c: "map category example_jobs = [''Technology'', ''Creative'', ''Creative'', ''Creative'']"
    by code_simp
  have "category ` set example_jobs = set (map category example_jobs)" by simp
  also have "\<dots> = {''Technology'', ''Creative''}" by (simp only: c) simp
  finally have s: "category ` set example_jobs = {''Technology'', ''Creative''}" .
  have n: "length (filter (\<lambda>j. category j = ''Creative'') example_jobs) = 3"
    by code_simp
  from job_demand [of "''Creative''" example_jobs] o(1) s n
  have a: "map_of (jobDemand example_jobs) ''Creative'' = Some (Number 3)" by simp
  from job_demand [of "''Finance''" example_jobs] o(2) p s
  have b: "map_of (jobDemand example_jobs) ''Finance'' = None"
    "''Finance'' \<notin> set (map fst (jobDemand example_jobs))"
    by simp_all
  from o e a b show ?thesis by (simp only: simp_thms)
qed

text \<open>
  Claim C9, as stated, fails for the key order: for a catalog whose skills are named
  \<open>2\<close> and \<open>1\<close>, in this order, the keys of the result are \<open>1\<close> and \<open>2\<close>, since an object
  lists its array-index keys first, in ascending numeric order.
\<close>

theorem aggregator_key_order_counterexample:
  "map name numbered_skills = [''2'', ''1''] \<and>
   skillFrequency numbered_skills [] = [(''1'', 0), (''2'', 0)] \<and>
   map fst (skillFrequency numbered_skills []) \<noteq> map name numbered_skills"
proof -
  have a: "map name numbered_skills = [''2'', ''1'']" by (simp add: numbered_skills_def)
  have b: "skillFrequency numbered_skills [] = [(''1'', 0), (''2'', 0)]" by code_simp
  from a b show ?thesis by simp
qed

text \<open>
  Claim C9, amended. Permuting the user records leaves the result of \<open>skillFrequency\<close>
  unchanged, and permuting the jobs leaves every entry of \<open>jobDemand\<close> unchanged. When no
  skill is named \<^verbatim>\<open>__proto__\<close>, the keys of \<open>skillFrequency\<close> are the names of the catalog in
  catalog order (each at its first occurrence), after the reordering that an object applies
  to its keys: array-index keys first, ascending, then all other keys as inserted; and
  when no category is \<^verbatim>\<open>__proto__\<close>, the keys of \<open>jobDemand\<close> are the categories in
  first-seen order after the same reordering. When moreover no name (no category) is an
  array index, the key order is the catalog order (the first-seen order) itself. In
  general the keys are those of the names (categories) other than \<^verbatim>\<open>__proto__\<close>.
\<close>

theorem aggregator_order_insensitive:
  "(mset U = mset U' \<longrightarrow> skillFrequency S U = skillFrequency S U') \<and>
   (mset J = mset J' \<longrightarrow> map_of (jobDemand J) = map_of (jobDemand J')) \<and>
   map fst (skillFrequency S U) =
     property_order (first_seen (filter (\<lambda>k. k \<noteq> ''__proto__'') (map name S))) \<and>
   map fst (jobDemand J) =
     property_order (first_seen (filter (\<lambda>k. k \<noteq> ''__proto__'') (map category J))) \<and>
   ((\<forall>s\<in>set S. name s \<noteq> ''__proto__'') \<longrightarrow>
      map fst (skillFrequency S U) = property_order (first_seen (map name S))) \<and>
   ((\<forall>j\<in>set J. category j \<noteq> ''__proto__'') \<longrightarrow>
      map fst (jobDemand J) = property_order (first_seen (map category J))) \<and>
   ((\<forall>s\<in>set S. name s \<noteq> ''__proto__'' \<and> \<not> is_array_index (name s)) \<longrightarrow>
      map fst (skillFrequency S U) = first_seen (map name S)) \<and>
   ((\<forall>j\<in>set J. category j \<noteq> ''__proto__'' \<and> \<not> is_array_index (category j)) \<longrightarrow>
      map fst (jobDemand J) = first_seen (map category J))"
proof -
  have s: "map fst (skillFrequency S U) = property_order (first_seen (map name S))"
    if "\<forall>s\<in>set S. name s \<noteq> ''__proto__''"
    using that by (simp add: skillFrequency_keys filter_not_proto)
  have j: "map fst (jobDemand J) = property_order (first_seen (map category J))"
    if "\<forall>j\<in>set J. category j \<noteq> ''__proto__''"
    using that by (simp add: jobDemand_keys filter_not_proto)
  have s': "map fst (skillFrequency S U) = first_seen (map name S)"
    if "\<forall>s\<in>set S. name s \<noteq> ''__proto__'' \<and> \<not> is_array_index (name s)"
    using that by (simp add: s property_order_plain first_seen_set)
  have j': "map fst (jobDemand J) = first_seen (map category J)"
    if "\<forall>j\<in>set J. category j \<noteq> ''__proto__'' \<and> \<not> is_array_index (category j)"
    using that by (simp add: j property_order_plain first_seen_set)
  from s j s' j' skillFrequency_perm [of U U' S] jobDemand_perm [of J J']
    skillFrequency_keys [of S U] jobDemand_keys [of J]
  show ?thesis by blast
qed

text \<open>The amended theorem of C9 at the example data and its reversal.\<close>

theorem aggregator_order_insensitive_witness:
  "mset (rev example_users) = mset example_users \<and>
   skillFrequency example_skills (rev example_users) = skillFrequency example_skills example_users \<and>
   mset (rev example_jobs) = mset example_jobs \<and>
   map_of (jobDemand (rev example_jobs)) = map_of (jobDemand example_jobs) \<and>
   jobDemand (rev example_jobs) = [(''Creative'', Number 3), (''Technology'', Number 1)] \<and>
   jobDemand example_jobs = [(''Technology'', Number 1), (''Creative'', Number 3)] \<and>
   list_all (\<lambda>s. name s \<noteq> ''__proto__'' \<and> \<not> is_array_index (name s)) example_skills \<and>
   map fst (skillFrequency example_skills example_users) = first_seen (map name example_skills) \<and>
   list_all (\<lambda>j. category j \<noteq> ''__proto__'' \<and> \<not> is_array_index (category j)) example_jobs \<and>
   map fst (jobDemand example_jobs) = first_seen (map category example_jobs) \<and>
   first_seen (map category example_jobs) = [''Technology'', ''Creative'']"
proof -
  have u: "mset (rev example_users) = mset example_users"
    and v: "mset (rev example_jobs) = mset example_jobs"
    by simp_all
  have e: "jobDemand (rev example_jobs) = [(''Creative'', Number 3), (''Technology'', Number 1)]"
    "jobDemand example_jobs = [(''Technology'', Number 1), (''Creative'', Number 3)]"
    "first_seen (map category example_jobs) = [''Technology'', ''Creative'']"
    by code_simp+
  have ls: "list_all (\<lambda>s. name s \<noteq> ''__proto__'' \<and> \<not> is_array_index (name s)) example_skills"
    and lj: "list_all (\<lambda>j. category j \<noteq> ''__proto__'' \<and> \<not> is_array_index (category j))
      example_jobs"
    by code_simp+
  then have hs: "\<forall>s\<in>set example_skills. name s \<noteq> ''__proto__'' \<and> \<not> is_array_index (name s)"
    and hj: "\<forall>j\<in>set example_jobs. category j \<noteq> ''__proto__'' \<and> \<not> is_array_index (category j)"
    by (simp_all add: list_all_iff)
  note t = aggregator_order_insensitive [where U = "rev example_users" and U' = example_users
      and J = "rev example_jobs" and J' = example_jobs and S = example_skills]
    aggregator_order_insensitive [where U = example_users and U' = example_users
      and J = example_jobs and J' = example_jobs and S = example_skills]
  from t u v hs hj
  have "skillFrequency example_skills (rev example_users) =
      skillFrequency example_skills example_users"
    and "map_of (jobDemand (rev example_jobs)) = map_of (jobDemand example_jobs)"
    and "map fst (skillFrequency example_skills example_users) =
      first_seen (map name example_skills)"
    and "map fst (jobDemand example_jobs) = first_seen (map category example_jobs)"
    by blast+
  with u v e ls lj show ?thesis by (simp only: simp_thms)
qed

section \<open>Verification of the route handler\<close>

lemma connectToMongo_collections:
  "coll_user_skills (snd (connectToMongo env w)) = coll_user_skills w"
  "coll_status_checks (snd (connectToMongo env w)) = coll_status_checks w"
  by (simp_all add: connectToMongo_def split: option.splits)

lemma route_user_skills: "path req = [''user'', ''skills''] \<Longrightarrow> route_of req = ''/user/skills''"
  by (simp add: route_of_def)

lemma route_body_user_skills_get:
  assumes "path req = [''user'', ''skills'']" "http_method req = ''GET''"
    and "connectToMongo env w = (Inr h, w')"
  shows "route_body env req w = user_skills_get env h w'"
  using assms by (simp add: route_body_def route_user_skills)

lemma route_body_user_skills_post:
  assumes "path req = [''user'', ''skills'']" "http_method req = ''POST''"
    and "connectToMongo env w = (Inr h, w')"
  shows "route_body env req w = user_skills_post env req h w'"
  using assms by (simp add: route_body_def route_user_skills)

lemma findOne_replaceOne_same:
  "matches_user uid d \<Longrightarrow> findOne uid (replaceOne uid d ds) = Some d"
  by (induction ds) (simp_all add: findOne_def)

lemma matches_user_unique: "matches_user uid d \<Longrightarrow> matches_user uid' d \<Longrightarrow> uid = uid'"
  by (simp add: matches_user_def)

lemma findOne_replaceOne_other:
  assumes "matches_user uid d" "uid' \<noteq> uid"
  shows "findOne uid' (replaceOne uid d ds) = findOne uid' ds"
proof (induction ds)
  case Nil
  from assms have "\<not> matches_user uid' d" by (auto dest: matches_user_unique)
  then show ?case by (simp add: findOne_def)
next
  case (Cons x ds)
  show ?case
  proof (cases "matches_user uid x")
    case True
    with assms have "\<not> matches_user uid' x" "\<not> matches_user uid' d"
      by (auto dest: matches_user_unique)
    with True show ?thesis by (simp add: findOne_def)
  next
    case False
    with Cons.IH show ?thesis by (simp add: findOne_def)
  qed
qed

lemma replaceOne_append:
  "\<forall>x\<in>set ds. \<not> matches_user uid x \<Longrightarrow> replaceOne uid d ds = ds @ [d]"
  by (induction ds) simp_all

lemma replaceOne_in_place:
  "\<forall>x\<in>set pre. \<not> matches_user uid x \<Longrightarrow> matches_user uid old \<Longrightarrow>
   replaceOne uid d (pre @ old # post) = pre @ d # post"
  by (induction pre) simp_all

lemma length_replaceOne:
  "length (replaceOne uid d ds) =
     (if \<forall>x\<in>set ds. \<not> matches_user uid x then length ds + 1 else length ds)"
  by (induction ds) auto

lemma not_array_not_truthy: "\<not> truthy sk \<or> \<not> isArray sk \<longleftrightarrow> \<not> isArray sk"
  by (cases sk) simp_all

lemma isArray_truthy: "isArray sk \<Longrightarrow> truthy sk"
  by (cases sk) simp_all

text \<open>
  Claim C5, as stated, fails for the body \<^verbatim>\<open>null\<close>, which is valid JSON and has no skills
  field: the read of \<^verbatim>\<open>body.skills\<close> throws, the \<^verbatim>\<open>catch\<close> of the route answers with
  status 401 and the message of the TypeError, and the request is not rejected with
  status 400.
\<close>

theorem post_skills_validation_counterexample:
  "json_body (post_skills JNull) = Inr JNull \<and>
   getUser healthy = Inr (Some example_user) \<and>
   status (fst (handleRoute healthy (post_skills JNull) with_record)) = 401 \<and>
   resp_body (fst (handleRoute healthy (post_skills JNull) with_record)) =
     JObj [(''error'', JStr (''Cannot read properties of null (reading '' @ [CHR 0x27] @
       ''skills'' @ [CHR 0x27] @ '')''))] \<and>
   coll_user_skills (snd (handleRoute healthy (post_skills JNull) with_record)) =
     coll_user_skills with_record"
proof -
  have c: "connectToMongo healthy with_record = (Inr True, with_record)"
    by (simp add: connectToMongo_def with_record_def)
  have p: "path (post_skills JNull) = [''user'', ''skills'']"
    "http_method (post_skills JNull) = ''POST''" "json_body (post_skills JNull) = Inr JNull"
    by (simp_all add: post_skills_def)
  have a: "getUser healthy = Inr (Some example_user)" by (simp add: healthy_def)
  have "route_body healthy (post_skills JNull) with_record =
      user_skills_post healthy (post_skills JNull) True with_record"
    using p(1,2) c by (rule route_body_user_skills_post)
  then have "handleRoute healthy (post_skills JNull) with_record =
      (handleCORS (json_response (error_body (''Cannot read properties of null (reading '' @
         [CHR 0x27] @ ''skills'' @ [CHR 0x27] @ '')'')) 401), with_record)"
    using p(3) a
    by (simp add: handleRoute_def user_skills_post_def getAuthenticatedUser_def catch_401_def)
  with p(3) a show ?thesis
    by (simp add: handleCORS_def json_response_def error_body_def)
qed

text \<open>
  Claim C5, amended. An authenticated POST to /user/skills whose body parses to a JSON
  value other than \<^verbatim>\<open>null\<close> (so that reading its \<open>skills\<close> field yields \<open>sk\<close>, which is
  \<^verbatim>\<open>undefined\<close> when the field is missing), on a database that answers: the request is
  rejected with status 400 and the error "Skills array is required" exactly when \<open>sk\<close> is
  not an array, and then the collection is untouched. Otherwise the answer has status 200
  and the record of the user is replaced as a whole by the document
  \<open>{userId, userEmail, skills, updatedAt}\<close>: where the collection holds a record of the
  user, the first such record is replaced in place by this document and nothing else
  changes, so that the prior record is gone and the collection keeps its length; where it
  holds none, the document is appended. A lookup of the user then yields exactly this
  document and the lookups of all other users are as before. No bound on the number of
  skills is checked. The collection of status checks is untouched throughout.
\<close>

theorem post_skills_validation:
  assumes "path req = [''user'', ''skills'']" and "http_method req = ''POST''"
    and "fst (connectToMongo env w) = Inr True"
    and "getUser env = Inr (Some u)"
    and "json_body req = Inr b" and "get_prop b ''skills'' = Inr sk"
    and "collection_error env = None"
  shows
    "((status (fst (handleRoute env req w)) = 400 \<and>
       resp_body (fst (handleRoute env req w)) = JObj [(''error'', JStr ''Skills array is required'')])
      \<longleftrightarrow> \<not> isArray sk) \<and>
     (\<not> isArray sk \<longrightarrow>
        coll_user_skills (snd (handleRoute env req w)) = coll_user_skills w) \<and>
     (isArray sk \<longrightarrow>
        status (fst (handleRoute env req w)) = 200 \<and>
        resp_body (fst (handleRoute env req w)) =
          JObj [(''message'', JStr ''Skills updated successfully''), (''skills'', sk)] \<and>
        (\<forall>pre old post.
           coll_user_skills w = pre @ old # post \<and>
           (\<forall>x\<in>set pre. map_of x ''userId'' \<noteq> Some (JStr (user_id u))) \<and>
           map_of old ''userId'' = Some (JStr (user_id u)) \<longrightarrow>
           coll_user_skills (snd (handleRoute env req w)) =
             pre @ [(''userId'', JStr (user_id u)), (''userEmail'', JStr (email u)),
                    (''skills'', sk), (''updatedAt'', JStr (now env))] # post) \<and>
        ((\<forall>x\<in>set (coll_user_skills w). map_of x ''userId'' \<noteq> Some (JStr (user_id u))) \<longrightarrow>
           coll_user_skills (snd (handleRoute env req w)) =
             coll_user_skills w @
               [[(''userId'', JStr (user_id u)), (''userEmail'', JStr (email u)),
                 (''skills'', sk), (''updatedAt'', JStr (now env))]]) \<and>
        length (coll_user_skills (snd (handleRoute env req w))) =
          (if \<forall>x\<in>set (coll_user_skills w). map_of x ''userId'' \<noteq> Some (JStr (user_id u))
           then length (coll_user_skills w) + 1 else length (coll_user_skills w)) \<and>
        find (\<lambda>x. map_of x ''userId'' = Some (JStr (user_id u)))
            (coll_user_skills (snd (handleRoute env req w))) =
          Some [(''userId'', JStr (user_id u)), (''userEmail'', JStr (email u)),
                (''skills'', sk), (''updatedAt'', JStr (now env))] \<and>
        (\<forall>uid. uid \<noteq> user_id u \<longrightarrow>
           find (\<lambda>x. map_of x ''userId'' = Some (JStr uid))
             (coll_user_skills (snd (handleRoute env req w))) =
           find (\<lambda>x. map_of x ''userId'' = Some (JStr uid)) (coll_user_skills w))) \<and>
     coll_status_checks (snd (handleRoute env req w)) = coll_status_checks w"
proof -
  let ?d = "[(''userId'', JStr (user_id u)), (''userEmail'', JStr (email u)),
             (''skills'', sk), (''updatedAt'', JStr (now env))]"
  obtain w' where c: "connectToMongo env w = (Inr True, w')"
    using assms(3) by (cases "connectToMongo env w") simp
  then have cw: "coll_user_skills w' = coll_user_skills w"
    "coll_status_checks w' = coll_status_checks w"
    using connectToMongo_collections [of env w] by simp_all
  have rb: "route_body env req w = user_skills_post env req True w'"
    using assms(1,2) c by (rule route_body_user_skills_post)
  have m: "matches_user (user_id u) ?d" by (simp add: matches_user_def)
  have mu: "matches_user uid = (\<lambda>x. map_of x ''userId'' = Some (JStr uid))" for uid
    by (intro ext) (simp add: matches_user_def)
  show ?thesis
  proof (cases "isArray sk")
    case False
    then have "handleRoute env req w =
        (handleCORS (json_response (error_body ''Skills array is required'') 400), w')"
      using assms(4-6)
      by (simp add: handleRoute_def rb user_skills_post_def getAuthenticatedUser_def
          catch_401_def not_array_not_truthy)
    with False cw show ?thesis
      by (simp add: handleCORS_def json_response_def error_body_def)
  next
    case True
    then have h: "handleRoute env req w =
        (handleCORS (json_response
           (JObj [(''message'', JStr ''Skills updated successfully''), (''skills'', sk)]) 200),
         w'\<lparr>coll_user_skills := replaceOne (user_id u) ?d (coll_user_skills w')\<rparr>)"
      using assms(4-7)
      by (simp add: handleRoute_def rb user_skills_post_def getAuthenticatedUser_def
          catch_401_def isArray_truthy collection_def Let_def)
    then have store: "coll_user_skills (snd (handleRoute env req w)) =
        replaceOne (user_id u) ?d (coll_user_skills w)"
      and other: "coll_status_checks (snd (handleRoute env req w)) = coll_status_checks w"
      and resp: "status (fst (handleRoute env req w)) = 200"
        "resp_body (fst (handleRoute env req w)) =
          JObj [(''message'', JStr ''Skills updated successfully''), (''skills'', sk)]"
      by (simp_all add: cw handleCORS_def json_response_def)
    have in_place: "coll_user_skills (snd (handleRoute env req w)) = pre @ ?d # post"
      if "coll_user_skills w = pre @ old # post"
        and "\<forall>x\<in>set pre. map_of x ''userId'' \<noteq> Some (JStr (user_id u))"
        and "map_of old ''userId'' = Some (JStr (user_id u))" for pre old post
      using that by (simp add: store replaceOne_in_place matches_user_def)
    have appended: "coll_user_skills (snd (handleRoute env req w)) = coll_user_skills w @ [?d]"
      if "\<forall>x\<in>set (coll_user_skills w). map_of x ''userId'' \<noteq> Some (JStr (user_id u))"
      using that by (simp add: store replaceOne_append matches_user_def)
    have len: "length (coll_user_skills (snd (handleRoute env req w))) =
          (if \<forall>x\<in>set (coll_user_skills w). map_of x ''userId'' \<noteq> Some (JStr (user_id u))
           then length (coll_user_skills w) + 1 else length (coll_user_skills w))"
      by (simp add: store length_replaceOne matches_user_def)
    have own: "find (\<lambda>x. map_of x ''userId'' = Some (JStr (user_id u)))
            (coll_user_skills (snd (handleRoute env req w))) = Some ?d"
      using findOne_replaceOne_same [OF m, of "coll_user_skills w"]
      by (simp add: store findOne_def mu)
    have others: "find (\<lambda>x. map_of x ''userId'' = Some (JStr uid))
             (coll_user_skills (snd (handleRoute env req w))) =
           find (\<lambda>x. map_of x ''userId'' = Some (JStr uid)) (coll_user_skills w)"
      if "uid \<noteq> user_id u" for uid
      using findOne_replaceOne_other [OF m that, of "coll_user_skills w"]
      by (simp add: store findOne_def mu)
    from True resp in_place appended len own others other show ?thesis
      by (simp only: simp_thms) blast
  qed
qed

text \<open>The amended theorem of C5 for a body with four skills, which replaces the stored
  record of the user in place, and for two bodies that are rejected: skills as a string,
  and no skills.\<close>

theorem post_skills_validation_witness:
  "get_prop (JObj [(''skills'', four_skills)]) ''skills'' = Inr four_skills \<and>
   isArray four_skills \<and>
   status (fst (handleRoute healthy (post_skills (JObj [(''skills'', four_skills)])) with_record)) = 200 \<and>
   coll_user_skills with_record =
     [[(''userId'', JStr ''u0''), (''userEmail'', JStr ''z@example.org''),
       (''skills'', JArr [JStr ''Design'']), (''updatedAt'', JStr ''2024-04-01T08:00:00.000Z'')],
      [(''userId'', JStr ''u1''), (''userEmail'', JStr ''a@example.org''),
       (''skills'', JArr [JStr ''Coding'']), (''updatedAt'', JStr ''2024-04-02T08:00:00.000Z'')]] \<and>
   coll_user_skills
       (snd (handleRoute healthy (post_skills (JObj [(''skills'', four_skills)])) with_record)) =
     [[(''userId'', JStr ''u0''), (''userEmail'', JStr ''z@example.org''),
       (''skills'', JArr [JStr ''Design'']), (''updatedAt'', JStr ''2024-04-01T08:00:00.000Z'')],
      [(''userId'', JStr ''u1''), (''userEmail'', JStr ''a@example.org''),
       (''skills'', four_skills), (''updatedAt'', JStr ''2024-05-01T10:00:00.000Z'')]] \<and>
   get_prop (JObj [(''skills'', JStr ''Coding'')]) ''skills'' = Inr (JStr ''Coding'') \<and>
   status (fst (handleRoute healthy (post_skills (JObj [(''skills'', JStr ''Coding'')])) with_record)) = 400 \<and>
   get_prop (JObj []) ''skills'' = Inr JUndefined \<and>
   status (fst (handleRoute healthy (post_skills (JObj [])) with_record)) = 400"
proof -
  let ?u0 = "[(''userId'', JStr ''u0''), (''userEmail'', JStr ''z@example.org''),
       (''skills'', JArr [JStr ''Design'']), (''updatedAt'', JStr ''2024-04-01T08:00:00.000Z'')]"
  let ?u1 = "[(''userId'', JStr ''u1''), (''userEmail'', JStr ''a@example.org''),
       (''skills'', JArr [JStr ''Coding'']), (''updatedAt'', JStr ''2024-04-02T08:00:00.000Z'')]"
  have p: "path (post_skills b) = [''user'', ''skills'']"
    "http_method (post_skills b) = ''POST''" "json_body (post_skills b) = Inr b" for b
    by (simp_all add: post_skills_def)
  have c: "fst (connectToMongo healthy with_record) = Inr True"
    by (simp add: connectToMongo_def with_record_def)
  have a: "getUser healthy = Inr (Some example_user)" "collection_error healthy = None"
    "now healthy = ''2024-05-01T10:00:00.000Z''"
    by (simp_all add: healthy_def)
  have u: "user_id example_user = ''u1''" "email example_user = ''a@example.org''"
    by (simp_all add: example_user_def)
  have g: "get_prop (JObj [(''skills'', four_skills)]) ''skills'' = Inr four_skills"
    "get_prop (JObj [(''skills'', JStr ''Coding'')]) ''skills'' = Inr (JStr ''Coding'')"
    "get_prop (JObj []) ''skills'' = Inr JUndefined"
    by simp_all
  have i: "isArray four_skills" by (simp add: four_skills_def)
  have r: "coll_user_skills with_record = [?u0, ?u1]" by (simp add: with_record_def)
  then have d: "coll_user_skills with_record = [?u0] @ ?u1 # []"
    "\<forall>x\<in>set [?u0]. map_of x ''userId'' \<noteq> Some (JStr ''u1'')"
    "map_of ?u1 ''userId'' = Some (JStr ''u1'')"
    by simp_all
  note t = post_skills_validation [OF p(1) p(2) c a(1) p(3) g(1) a(2), unfolded u a(3)]
  from t i have 1:
    "status (fst (handleRoute healthy (post_skills (JObj [(''skills'', four_skills)])) with_record)) = 200"
    by blast
  from t i have "\<forall>pre old post.
      coll_user_skills with_record = pre @ old # post \<and>
      (\<forall>x\<in>set pre. map_of x ''userId'' \<noteq> Some (JStr ''u1'')) \<and>
      map_of old ''userId'' = Some (JStr ''u1'') \<longrightarrow>
      coll_user_skills
        (snd (handleRoute healthy (post_skills (JObj [(''skills'', four_skills)])) with_record)) =
      pre @ [(''userId'', JStr ''u1''), (''userEmail'', JStr ''a@example.org''),
             (''skills'', four_skills), (''updatedAt'', JStr ''2024-05-01T10:00:00.000Z'')] # post"
    by blast
  with d have 2: "coll_user_skills
       (snd (handleRoute healthy (post_skills (JObj [(''skills'', four_skills)])) with_record)) =
     [?u0] @ [(''userId'', JStr ''u1''), (''userEmail'', JStr ''a@example.org''),
       (''skills'', four_skills), (''updatedAt'', JStr ''2024-05-01T10:00:00.000Z'')] # []"
    by blast
  from post_skills_validation [OF p(1) p(2) c a(1) p(3) g(2) a(2)]
  have 3: "status (fst (handleRoute healthy (post_skills (JObj [(''skills'', JStr ''Coding'')])) with_record)) = 400"
    by simp
  from post_skills_validation [OF p(1) p(2) c a(1) p(3) g(3) a(2)]
  have 4: "status (fst (handleRoute healthy (post_skills (JObj [])) with_record)) = 400"
    by simp
  from 2 have 5: "coll_user_skills
       (snd (handleRoute healthy (post_skills (JObj [(''skills'', four_skills)])) with_record)) =
     [?u0, [(''userId'', JStr ''u1''), (''userEmail'', JStr ''a@example.org''),
       (''skills'', four_skills), (''updatedAt'', JStr ''2024-05-01T10:00:00.000Z'')]]"
    by simp
  from g i r 1 5 3 4 show ?thesis by (simp only: simp_thms)
qed

text \<open>
  Claim C10. An authenticated GET of /user/skills by a user who has no stored record, or
  whose stored record has no skills field, is answered with status 200 and the body
  \<open>{skills: []}\<close>, given that the database handle is there and the lookup does not fail.
  The collection is left as it was.
\<close>

theorem get_skills_default_empty:
  assumes "path req = [''user'', ''skills'']" and "http_method req = ''GET''"
    and "fst (connectToMongo env w) = Inr True"
    and "getUser env = Inr (Some u)"
    and "collection_error env = None"
    and "findOne (user_id u) (coll_user_skills w) = None \<or>
         (\<exists>d. findOne (user_id u) (coll_user_skills w) = Some d \<and> map_of d ''skills'' = None)"
  shows
    "status (fst (handleRoute env req w)) = 200 \<and>
     resp_body (fst (handleRoute env req w)) = JObj [(''skills'', JArr [])] \<and>
     coll_user_skills (snd (handleRoute env req w)) = coll_user_skills w"
proof -
  obtain w' where c: "connectToMongo env w = (Inr True, w')"
    using assms(3) by (cases "connectToMongo env w") simp
  then have cw: "coll_user_skills w' = coll_user_skills w"
    using connectToMongo_collections(1) [of env w] by simp
  have rb: "route_body env req w = user_skills_get env True w'"
    using assms(1,2) c by (rule route_body_user_skills_get)
  from assms(6) have "handleRoute env req w =
      (handleCORS (json_response (JObj [(''skills'', JArr [])]) 200), w')"
    using assms(4,5)
    by (auto simp: handleRoute_def rb user_skills_get_def getAuthenticatedUser_def
        catch_401_def collection_def Let_def cw)
  with cw show ?thesis by (simp add: handleCORS_def json_response_def)
qed

text \<open>The theorem of C10 for a first request on an empty collection and for a stored
  record without a skills field.\<close>

theorem get_skills_default_empty_witness:
  "findOne ''u1'' (coll_user_skills fresh) = None \<and>
   status (fst (handleRoute healthy get_skills fresh)) = 200 \<and>
   resp_body (fst (handleRoute healthy get_skills fresh)) = JObj [(''skills'', JArr [])] \<and>
   findOne ''u1'' (coll_user_skills without_skills) =
     Some [(''userId'', JStr ''u1''), (''userEmail'', JStr ''a@example.org''),
           (''updatedAt'', JStr ''2024-04-02T08:00:00.000Z'')] \<and>
   status (fst (handleRoute healthy get_skills without_skills)) = 200 \<and>
   resp_body (fst (handleRoute healthy get_skills without_skills)) = JObj [(''skills'', JArr [])]"
proof -
  have p: "path get_skills = [''user'', ''skills'']" "http_method get_skills = ''GET''"
    by (simp_all add: get_skills_def)
  have c: "fst (connectToMongo healthy fresh) = Inr True"
    "fst (connectToMongo healthy without_skills) = Inr True"
    by (simp_all add: connectToMongo_def fresh_def without_skills_def healthy_def)
  have a: "getUser healthy = Inr (Some example_user)" "collection_error healthy = None"
    by (simp_all add: healthy_def)
  have u: "user_id example_user = ''u1''" by (simp add: example_user_def)
  have f: "findOne ''u1'' (coll_user_skills fresh) = None"
    by (simp add: fresh_def findOne_def)
  have g: "findOne ''u1'' (coll_user_skills without_skills) =
     Some [(''userId'', JStr ''u1''), (''userEmail'', JStr ''a@example.org''),
           (''updatedAt'', JStr ''2024-04-02T08:00:00.000Z'')]"
    by (simp add: without_skills_def findOne_def matches_user_def)
  have f': "findOne (user_id example_user) (coll_user_skills fresh) = None \<or>
      (\<exists>d. findOne (user_id example_user) (coll_user_skills fresh) = Some d \<and>
           map_of d ''skills'' = None)"
    by (simp add: u f)
  have g': "findOne (user_id example_user) (coll_user_skills without_skills) = None \<or>
      (\<exists>d. findOne (user_id example_user) (coll_user_skills without_skills) = Some d \<and>
           map_of d ''skills'' = None)"
    by (simp add: u g)
  from get_skills_default_empty [OF p c(1) a f'] get_skills_default_empty [OF p c(2) a g'] f g
  show ?thesis by (simp only: simp_thms)
qed




lemma status_cors [simp]: "status (handleCORS (json_response b st)) = st"
  by (simp add: handleCORS_def json_response_def)

lemma resp_body_cors [simp]: "resp_body (handleCORS (json_response b st)) = b"
  by (simp add: handleCORS_def json_response_def)




















text \<open>
  A failing operation of the store inside the \<^verbatim>\<open>try\<close> of \<^verbatim>\<open>POST /user/skills\<close> is
  answered by the inner \<^verbatim>\<open>catch\<close>: status 401 with the message of the error.
\<close>

lemma store_failure_in_post_skills:
  "status (fst (handleRoute failing_store (post_skills (JObj [(''skills'', four_skills)]))
      with_record)) = 401 \<and>
   resp_body (fst (handleRoute failing_store (post_skills (JObj [(''skills'', four_skills)]))
      with_record)) = JObj [(''error'', JStr ''connection pool closed'')]"
proof -
  have "connectToMongo failing_store with_record = (Inr True, with_record)"
    by (simp add: connectToMongo_def with_record_def)
  then have "route_body failing_store (post_skills (JObj [(''skills'', four_skills)])) with_record =
      user_skills_post failing_store (post_skills (JObj [(''skills'', four_skills)])) True with_record"
    by (intro route_body_user_skills_post) (simp_all add: post_skills_def)
  then show ?thesis
    by (simp add: handleRoute_def user_skills_post_def getAuthenticatedUser_def catch_401_def
        collection_def failing_store_def healthy_def post_skills_def four_skills_def
        error_body_def Let_def)
qed




end
